theory Spec2Isabelle
  imports Main "HOL-Library.Word" "HOL-Library.AList"
begin

unbundle bit_operations_syntax

section \<open>The command-stream assembler of \<open>csf_test/interpret.py\<close>\<close>

text \<open>
  The development embeds the assembler and linker of \<open>interpret.py\<close>: the classes
  \<open>Buffer\<close>, \<open>Level\<close>, \<open>Alloc\<close> and \<open>Context\<close>, and the functions around them.
  Python integers are unbounded, so words, offsets and ids are \<open>int\<close>; the bit operations
  on \<open>int\<close> are the two's complement ones of Python. Every exception the source can raise
  is a value of the type \<open>error\<close>, and a function that can raise returns \<open>error + 'a\<close>.
\<close>

subsection \<open>Exceptions and Python lists\<close>

datatype error =
    AssertionError | KeyError | IndexError | ValueError | TypeError
  | AttributeError | UnboundLocalError

fun ebind :: "'e + 'a \<Rightarrow> ('a \<Rightarrow> 'e + 'b) \<Rightarrow> 'e + 'b" where
  "ebind (Inl e) f = Inl e"
| "ebind (Inr x) f = f x"

lemma ebind_eq_Inr: "ebind m f = Inr y \<longleftrightarrow> (\<exists>x. m = Inr x \<and> f x = Inr y)"
  by (cases m) auto

lemma ebind_eq_Inl: "ebind m f = Inl e \<longleftrightarrow> m = Inl e \<or> (\<exists>x. m = Inr x \<and> f x = Inl e)"
  by (cases m) auto

lemma ebind_cong [fundef_cong]:
  "m = m' \<Longrightarrow> (\<And>x. m' = Inr x \<Longrightarrow> f x = f' x) \<Longrightarrow> ebind m f = ebind m' f'"
  by (cases m') auto

definition py_assert :: "bool \<Rightarrow> error + unit" where
  "py_assert b = (if b then Inr () else Inl AssertionError)"

text \<open>List indexing as Python does it: a negative index counts from the end, and an index
  outside the list raises \<open>IndexError\<close>.\<close>

definition py_index :: "'a list \<Rightarrow> int \<Rightarrow> error + nat" where
  "py_index xs i =
     (if 0 \<le> i \<and> i < int (length xs) then Inr (nat i)
      else if i < 0 \<and> - int (length xs) \<le> i then Inr (nat (int (length xs) + i))
      else Inl IndexError)"

definition py_get :: "'a list \<Rightarrow> int \<Rightarrow> error + 'a" where
  "py_get xs i = (case py_index xs i of Inl e \<Rightarrow> Inl e | Inr j \<Rightarrow> Inr (xs ! j))"

definition py_set :: "'a list \<Rightarrow> int \<Rightarrow> 'a \<Rightarrow> error + 'a list" where
  "py_set xs i v = (case py_index xs i of Inl e \<Rightarrow> Inl e | Inr j \<Rightarrow> Inr (xs[j := v]))"

subsection \<open>Branch arithmetic\<close>

definition resolve_rel :: "int \<Rightarrow> int \<Rightarrow> int" where
  "resolve_rel to branch = (to - branch) div 8 - 1"

text \<open>The two assertions of \<open>to_int16\<close>, with the constants of the source.\<close>

definition to_int16 :: "int \<Rightarrow> error + int" where
  "to_int16 v =
     (if \<not> v < 36768 then Inl AssertionError
      else if \<not> v \<ge> - 32768 then Inl AssertionError
      else Inr (v AND 0xffff))"

subsection \<open>Level: a code buffer with its label tables\<close>

text \<open>A pending reference names its label by a string (symbolic) or by a number.\<close>

datatype label_key = Name string | Num int

type_synonym label_ref = "label_key \<times> int \<times> string"

text \<open>The \<open>id\<close> that \<open>Buffer.__init__\<close> gives a Level is the key under which the Context
  below stores the object, so the record has no field for it.\<close>

record Level =
  indent :: nat
  buffer :: "int list"
  call_addr_offset :: "int option"
  call_len_offset :: "int option"
  labels :: "string \<rightharpoonup> int"
  label_refs :: "label_ref list"
  num_labels :: "int \<rightharpoonup> int"
  num_refs :: "int \<rightharpoonup> label_ref list"

definition new_Level :: "nat \<Rightarrow> Level" where
  "new_Level ind =
     \<lparr>indent = ind, buffer = [], call_addr_offset = None, call_len_offset = None,
      labels = Map.empty, label_refs = [], num_labels = Map.empty, num_refs = Map.empty\<rparr>"

definition offset :: "Level \<Rightarrow> int" where
  "offset L = int (length (buffer L)) * 8"

definition buffer_add_value :: "Level \<Rightarrow> int \<Rightarrow> int \<Rightarrow> error + Level" where
  "buffer_add_value L ofs v =
     ebind (py_get (buffer L) (ofs div 8)) (\<lambda>old.
     ebind (py_set (buffer L) (ofs div 8) (old + v)) (\<lambda>b.
     Inr (L\<lparr>buffer := b\<rparr>)))"

text \<open>\<open>self.labels[ref]\<close>: the table is keyed by strings, so a number is never found.\<close>

definition labels_lookup :: "Level \<Rightarrow> label_key \<Rightarrow> error + int" where
  "labels_lookup L k =
     (case k of
        Name s \<Rightarrow> (case labels L s of None \<Rightarrow> Inl KeyError | Some v \<Rightarrow> Inr v)
      | Num n \<Rightarrow> Inl KeyError)"

fun process_relocs :: "Level \<Rightarrow> label_ref list \<Rightarrow> int option \<Rightarrow> error + Level" where
  "process_relocs L [] to = Inr L"
| "process_relocs L ((ref, ofs, ty) # refs) to =
     ebind (py_assert (ty = ''rel'')) (\<lambda>_.
     ebind (case to of None \<Rightarrow> labels_lookup L ref | Some t \<Rightarrow> Inr t) (\<lambda>goto.
     ebind (to_int16 (resolve_rel goto ofs)) (\<lambda>v.
     ebind (buffer_add_value L ofs v) (\<lambda>L'.
     process_relocs L' refs to))))"

definition finish :: "Level \<Rightarrow> error + Level" where
  "finish L = process_relocs L (label_refs L) None"

subsection \<open>Alloc: a data buffer\<close>

record Alloc =
  alloc_id :: int
  alloc_size :: int
  alloc_flags :: int
  alloc_buffer :: "int list"

subsection \<open>Context: the scope stack, the relocations and the execution script\<close>

text \<open>An entry of the execution script is a Python list or a tuple of strings and integers;
  \<open>+=\<close> with a list extends a list and raises \<open>TypeError\<close> on a tuple.\<close>

datatype exe_item = S string | I int

datatype exe_entry = ExeList "exe_item list" | ExeTuple "exe_item list"

type_synonym reloc_rec = "int \<times> int \<times> int \<times> int"

text \<open>
  A Level is a mutable object that \<open>self.levels\<close>, \<open>self.completed\<close> and \<open>self.l\<close> share,
  so the Context holds the objects in a \<open>store\<close>, a list of pairs keyed by their \<open>id\<close>, and
  the three fields hold ids; \<open>objs c i\<close> below is the object with the id \<open>i\<close>. An id is read
  from the store only after \<open>push_Level\<close> has put its object there. \<open>next_id\<close> is the class attribute \<open>Buffer.id\<close>, which all buffers of the process
  share; \<open>printed\<close> collects the lines the source prints.
\<close>

record Context =
  next_id :: int
  store :: "(int \<times> Level) list"
  levels :: "int list"
  ctx_l :: "int option"
  allocs :: "(string \<times> Alloc) list"
  completed :: "int list"
  reloc :: "reloc_rec list"
  reloc_split :: "reloc_rec list"
  exe :: "exe_entry list"
  last_exe :: "int option"
  is_call :: bool
  printed :: "string list"

definition new_Context :: "int \<Rightarrow> Context" where
  "new_Context n =
     \<lparr>next_id = n, store = [], levels = [], ctx_l = None, allocs = [],
      completed = [], reloc = [], reloc_split = [], exe = [], last_exe = None,
      is_call = False, printed = []\<rparr>"

definition objs :: "Context \<Rightarrow> int \<Rightarrow> Level" where
  "objs c i = (case map_of (store c) i of Some L \<Rightarrow> L | None \<Rightarrow> new_Level 0)"

text \<open>\<open>self.levels.append(Level(indent))\<close>: the new object takes the next id.\<close>

definition push_Level :: "Context \<Rightarrow> nat \<Rightarrow> Context" where
  "push_Level c ind =
     c\<lparr>store := AList.update (next_id c) (new_Level ind) (store c),
       levels := levels c @ [next_id c],
       next_id := next_id c + 1\<rparr>"

definition new_Alloc :: "Context \<Rightarrow> int \<Rightarrow> int \<Rightarrow> Alloc \<times> Context" where
  "new_Alloc c sz fl =
     (\<lparr>alloc_id = next_id c, alloc_size = sz, alloc_flags = fl, alloc_buffer = []\<rparr>,
      c\<lparr>next_id := next_id c + 1\<rparr>)"

definition set_l :: "Context \<Rightarrow> Context" where
  "set_l c = (if levels c \<noteq> [] then c\<lparr>ctx_l := Some (last (levels c))\<rparr> else c)"

text \<open>The body of the loop of \<open>pop_until\<close> after the early return: the call site of the
  parent \<open>r\<close> is patched for the popped Level \<open>child\<close>.\<close>

definition patch_call_site :: "Context \<Rightarrow> int \<Rightarrow> int \<Rightarrow> error + Context" where
  "patch_call_site c r child =
     (let R = objs c r; buf_len = offset (objs c child) in
      ebind (case call_addr_offset R of None \<Rightarrow> Inl TypeError | Some a \<Rightarrow> Inr a) (\<lambda>a.
      ebind (case call_len_offset R of None \<Rightarrow> Inl TypeError | Some n \<Rightarrow> Inr n) (\<lambda>n.
      ebind (py_get (buffer R) n) (\<lambda>w.
      ebind (py_set (buffer R) n ((w AND push_bit 48 0xffff) + buf_len)) (\<lambda>b1.
      ebind (py_get b1 a) (\<lambda>w2.
      ebind (py_set b1 a (w2 AND push_bit 48 0xffff)) (\<lambda>b2.
      Inr (c\<lparr>reloc := reloc c @ [(r, a * 8, child, 0)],
             store := AList.update r (R\<lparr>buffer := b2, call_addr_offset := None,
                                          call_len_offset := None\<rparr>) (store c)\<rparr>))))))))"

lemma patch_call_site_levels:
  "patch_call_site c r child = Inr c' \<Longrightarrow> levels c' = levels c"
  by (auto simp: patch_call_site_def Let_def ebind_eq_Inr split: option.splits)

function pop_until :: "Context \<Rightarrow> nat \<Rightarrow> error + Context" where
  "pop_until c ind =
     (case ctx_l c of
        None \<Rightarrow> Inl AttributeError
      | Some cur \<Rightarrow>
          if indent (objs c cur) = ind then Inr c
          else if levels c = [] then Inl IndexError
          else
            let child = last (levels c);
                c1 = set_l (c\<lparr>levels := butlast (levels c),
                               completed := completed c @ [child]\<rparr>)
            in if levels c1 = [] then Inr c1
               else (case ctx_l c1 of
                       None \<Rightarrow> Inl AttributeError
                     | Some r \<Rightarrow>
                         (case patch_call_site c1 r child of
                            Inl e \<Rightarrow> Inl e
                          | Inr c2 \<Rightarrow> pop_until c2 ind)))"
  by pat_completeness auto
termination pop_until
proof (relation "measure (\<lambda>(c, ind). length (levels c))")
  show "wf (measure (\<lambda>(c, ind). length (levels c)))" by simp
next
  fix c :: Context and ind cur child c1 r c2
  assume ne: "levels c \<noteq> []"
    and c1: "c1 = set_l (c\<lparr>levels := butlast (levels c), completed := completed c @ [child]\<rparr>)"
    and p: "patch_call_site c1 r child = Inr c2"
  have "levels c1 = butlast (levels c)" using c1 by (simp add: set_l_def)
  moreover have "levels c2 = levels c1" using p by (rule patch_call_site_levels)
  ultimately show "((c2, ind), (c, ind)) \<in> measure (\<lambda>(c, ind). length (levels c))"
    using ne by simp
qed

definition flush_exe :: "Context \<Rightarrow> error + Context" where
  "flush_exe c =
     (case levels c of
        [] \<Rightarrow> Inl IndexError
      | l0 # _ \<Rightarrow>
          let ind = indent (objs c l0) in
          ebind (pop_until c ind) (\<lambda>c1.
          ebind (case levels c1 of
                   [] \<Rightarrow> Inl IndexError
                 | l1 # _ \<Rightarrow>
                     if buffer (objs c1 l1) \<noteq> [] then
                       (let lv = last (levels c1) in
                        ebind (finish (objs c1 lv)) (\<lambda>L'.
                        Inr (set_l (push_Level
                               (c1\<lparr>store := AList.update lv L' (store c1),
                                   levels := butlast (levels c1),
                                   completed := completed c1 @ [lv]\<rparr>) ind))))
                     else Inr c1) (\<lambda>c2.
          if exe c2 = [] then Inr c2
          else (case last_exe c2 of
                  None \<Rightarrow>
                    Inr (c2\<lparr>printed := printed c2 @
                      [''# Trying to add multiple CSs to an exe line, becoming confused'']\<rparr>)
                | Some le \<Rightarrow>
                    ebind (if completed c2 \<noteq> [] then
                             (let p = last (completed c2) in
                              ebind (py_assert (indent (objs c2 p) = ind)) (\<lambda>_.
                              ebind (py_get (exe c2) le) (\<lambda>e.
                              ebind (case e of
                                       ExeList xs \<Rightarrow>
                                         Inr (ExeList (xs @ [I p, I (offset (objs c2 p))]))
                                     | ExeTuple xs \<Rightarrow> Inl TypeError) (\<lambda>e'.
                              ebind (py_set (exe c2) le e') (\<lambda>ex.
                              Inr (c2\<lparr>exe := ex\<rparr>))))))
                           else Inr c2) (\<lambda>c3.
                    Inr (c3\<lparr>last_exe := None\<rparr>))))))"

subsection \<open>The buffer registry: memory regions, shaders, descriptor tables\<close>

text \<open>A memory region is declared by a size alone or by a size and flags.\<close>

datatype mem_spec = Size int | SizeFlags int int

fun add_memory :: "Context \<Rightarrow> (string \<times> mem_spec) list \<Rightarrow> Context" where
  "add_memory c [] = c"
| "add_memory c ((m, f) # ms) =
     (let (sz, fl) = (case f of Size n \<Rightarrow> (n, 0x280f) | SizeFlags n g \<Rightarrow> (n, g));
          (a, c1) = new_Alloc c sz fl
      in add_memory (c1\<lparr>allocs := AList.update m a (allocs c1)\<rparr>) ms)"

text \<open>An entry of a descriptor table: a literal 32-bit word, the name of a buffer, or a
  pair of a name and an offset.\<close>

datatype desc_entry = Lit int | Ref string | RefOff string int

text \<open>The loop \<open>for w in words\<close> of \<open>add_descriptors\<close>; \<open>aid\<close> is the id of the new Alloc.\<close>

fun desc_words ::
  "Context \<Rightarrow> int \<Rightarrow> desc_entry list \<Rightarrow> int list \<Rightarrow> error + (int list \<times> Context)" where
  "desc_words c aid [] buf = Inr (buf, c)"
| "desc_words c aid (Lit n # ws) buf = desc_words c aid ws (buf @ [n])"
| "desc_words c aid (Ref nm # ws) buf =
     (case map_of (allocs c) nm of
        None \<Rightarrow> Inl KeyError
      | Some ref \<Rightarrow>
          desc_words (c\<lparr>reloc := reloc c @ [(aid, int (length buf) * 4, alloc_id ref, 0)]\<rparr>)
            aid ws (buf @ [0, 0]))"
| "desc_words c aid (RefOff nm off # ws) buf =
     (case map_of (allocs c) nm of
        None \<Rightarrow> Inl KeyError
      | Some ref \<Rightarrow>
          desc_words (c\<lparr>reloc := reloc c @ [(aid, int (length buf) * 4, alloc_id ref, off)]\<rparr>)
            aid ws (buf @ [0, 0]))"

text \<open>\<open>zip(it, it)\<close> over one iterator: consecutive pairs, a last unpaired element is lost.\<close>

fun zip_pairs :: "'a list \<Rightarrow> ('a \<times> 'a) list" where
  "zip_pairs (x # y # xs) = (x, y) # zip_pairs xs"
| "zip_pairs [x] = []"
| "zip_pairs [] = []"

definition pack_words :: "int list \<Rightarrow> int list" where
  "pack_words buf = map (\<lambda>(x, y). x OR push_bit 32 y) (zip_pairs buf)"

definition add_descriptor :: "Context \<Rightarrow> string \<times> desc_entry list \<Rightarrow> error + Context" where
  "add_descriptor c dw =
     (let (a, c1) = new_Alloc c 0 0x280f in
      ebind (desc_words c1 (alloc_id a) (snd dw) []) (\<lambda>(buf, c2).
      let b = pack_words buf;
          a' = a\<lparr>alloc_buffer := b, alloc_size := int (length b) * 8\<rparr>
      in Inr (c2\<lparr>allocs := AList.update (fst dw) a' (allocs c2)\<rparr>)))"

fun add_descriptors :: "Context \<Rightarrow> (string \<times> desc_entry list) list \<Rightarrow> error + Context" where
  "add_descriptors c [] = Inr c"
| "add_descriptors c (dw # ds) = ebind (add_descriptor c dw) (\<lambda>c'. add_descriptors c' ds)"

subsection \<open>Python strings\<close>

text \<open>
  Strings are lists of characters and only ASCII input is considered. \<open>is_space\<close> is the
  whitespace of \<open>str.strip\<close>, \<open>str.split\<close> and \<open>int\<close> among the ASCII characters.
\<close>

definition is_space :: "char \<Rightarrow> bool" where
  "is_space c =
     (c \<in> set [CHR 0x09, CHR 0x0A, CHR 0x0B, CHR 0x0C, CHR 0x0D,
               CHR 0x1C, CHR 0x1D, CHR 0x1E, CHR 0x1F, CHR 0x20])"

definition lstrip :: "string \<Rightarrow> string" where
  "lstrip s = dropWhile is_space s"

definition rstrip :: "string \<Rightarrow> string" where
  "rstrip s = rev (dropWhile is_space (rev s))"

definition strip :: "string \<Rightarrow> string" where
  "strip s = rstrip (lstrip s)"

text \<open>\<open>s.strip(chars)\<close>\<close>

definition strip_chars :: "string \<Rightarrow> string \<Rightarrow> string" where
  "strip_chars cs s =
     rev (dropWhile (\<lambda>c. c \<in> set cs) (rev (dropWhile (\<lambda>c. c \<in> set cs) s)))"

definition lower_char :: "char \<Rightarrow> char" where
  "lower_char c =
     (let n = (of_char c :: nat) in if 65 \<le> n \<and> n \<le> 90 then char_of (n + 32) else c)"

definition lower :: "string \<Rightarrow> string" where
  "lower s = map lower_char s"

text \<open>\<open>s.expandtabs()\<close>: a tab fills to the next multiple of 8 columns; a line break
  resets the column.\<close>

fun expandtabs_from :: "nat \<Rightarrow> string \<Rightarrow> string" where
  "expandtabs_from col [] = []"
| "expandtabs_from col (c # cs) =
     (if c = CHR 0x09 then
        replicate (8 - col mod 8) (CHR 0x20) @ expandtabs_from (col + (8 - col mod 8)) cs
      else if c = CHR 0x0A \<or> c = CHR 0x0D then c # expandtabs_from 0 cs
      else c # expandtabs_from (col + 1) cs)"

definition expandtabs :: "string \<Rightarrow> string" where
  "expandtabs s = expandtabs_from 0 s"

text \<open>\<open>s.split(sep)\<close> for a separator of one character; \<open>cur\<close> is the piece being read.\<close>

fun split_on :: "char \<Rightarrow> string \<Rightarrow> string \<Rightarrow> string list" where
  "split_on sep cur [] = [cur]"
| "split_on sep cur (c # cs) =
     (if c = sep then cur # split_on sep [] cs else split_on sep (cur @ [c]) cs)"

definition split :: "char \<Rightarrow> string \<Rightarrow> string list" where
  "split sep s = split_on sep [] s"

text \<open>\<open>s.split()\<close>: the pieces between runs of whitespace, none of them empty.\<close>

fun split_ws_from :: "string \<Rightarrow> string \<Rightarrow> string list" where
  "split_ws_from cur [] = (if cur = [] then [] else [cur])"
| "split_ws_from cur (c # cs) =
     (if is_space c then (if cur = [] then split_ws_from [] cs else cur # split_ws_from [] cs)
      else split_ws_from (cur @ [c]) cs)"

definition split_ws :: "string \<Rightarrow> string list" where
  "split_ws s = split_ws_from [] s"

text \<open>\<open>sep.join(xs)\<close>\<close>

fun join :: "string \<Rightarrow> string list \<Rightarrow> string" where
  "join sep [] = []"
| "join sep [x] = x"
| "join sep (x # y # xs) = x @ sep @ join sep (y # xs)"

definition startswith :: "string \<Rightarrow> string \<Rightarrow> bool" where
  "startswith s p = (take (length p) s = p)"

definition endswith :: "string \<Rightarrow> string \<Rightarrow> bool" where
  "endswith s p = (length p \<le> length s \<and> drop (length s - length p) s = p)"

text \<open>\<open>sub in s\<close> for strings\<close>

fun contains :: "string \<Rightarrow> string \<Rightarrow> bool" where
  "contains [] sub = (sub = [])"
| "contains (c # cs) sub = (startswith (c # cs) sub \<or> contains cs sub)"

definition is_digit :: "char \<Rightarrow> bool" where
  "is_digit c = (let n = (of_char c :: nat) in 48 \<le> n \<and> n \<le> 57)"

definition is_lower_hex :: "char \<Rightarrow> bool" where
  "is_lower_hex c = (let n = (of_char c :: nat) in (48 \<le> n \<and> n \<le> 57) \<or> (97 \<le> n \<and> n \<le> 102))"

text \<open>\<open>re.fullmatch(r"[0-9]+", s)\<close>\<close>

definition is_num :: "string \<Rightarrow> bool" where
  "is_num s = (s \<noteq> [] \<and> list_all is_digit s)"

text \<open>\<open>re.match(r"[0-9a-f]{16} ", line)\<close>\<close>

definition has_given_code :: "string \<Rightarrow> bool" where
  "has_given_code line =
     (17 \<le> length line \<and> list_all is_lower_hex (take 16 line) \<and> line ! 16 = CHR 0x20)"

subsection \<open>Integers from and to strings\<close>

text \<open>The value of a digit in any base up to 36; 37 for a character that is no digit.\<close>

definition digit_val :: "char \<Rightarrow> nat" where
  "digit_val c =
     (let n = (of_char c :: nat) in
      if 48 \<le> n \<and> n \<le> 57 then n - 48
      else if 97 \<le> n \<and> n \<le> 122 then n - 87
      else if 65 \<le> n \<and> n \<le> 90 then n - 55
      else 37)"

text \<open>The digits of a literal: single underscores may stand between digits. The result is
  the value, whether a digit was read, and the rest of the string.\<close>

fun scan_digits ::
  "nat \<Rightarrow> bool \<Rightarrow> int \<Rightarrow> bool \<Rightarrow> string \<Rightarrow> error + (int \<times> bool \<times> string)" where
  "scan_digits base prev_us acc seen [] =
     (if prev_us then Inl ValueError else Inr (acc, seen, []))"
| "scan_digits base prev_us acc seen (c # cs) =
     (if c = CHR ''_'' then
        (if prev_us then Inl ValueError else scan_digits base True acc seen cs)
      else if digit_val c < base then
        scan_digits base False (acc * int base + int (digit_val c)) True cs
      else if prev_us then Inl ValueError
      else Inr (acc, seen, c # cs))"

text \<open>
  \<open>int(s, base)\<close> for a string, with \<open>base\<close> 0 (the base is read from the prefix), or 2 to 36:
  surrounding whitespace, a sign, a base prefix where the base allows it, then the digits.
  With base 0 a literal that starts with \<open>0\<close> and has no prefix must be zero. The limit of
  Python on the number of decimal digits is not modelled.
\<close>

definition py_int :: "nat \<Rightarrow> string \<Rightarrow> error + int" where
  "py_int base0 str0 =
     (let s1 = lstrip str0;
          neg = (take 1 s1 = ''-'');
          s2 = (if take 1 s1 = ''+'' \<or> take 1 s1 = ''-'' then drop 1 s1 else s1);
          c0 = take 1 s2;
          c1 = take 1 (drop 1 s2);
          pfx16 = (c0 = ''0'' \<and> (c1 = ''x'' \<or> c1 = ''X''));
          pfx8 = (c0 = ''0'' \<and> (c1 = ''o'' \<or> c1 = ''O''));
          pfx2 = (c0 = ''0'' \<and> (c1 = ''b'' \<or> c1 = ''B''));
          base = (if base0 = 0 then
                    (if pfx16 then 16 else if pfx8 then 8 else if pfx2 then 2 else 10)
                  else base0);
          error_if_nonzero = (base0 = 0 \<and> c0 = ''0'' \<and> base = 10);
          s3 = (if (base = 16 \<and> pfx16) \<or> (base = 8 \<and> pfx8) \<or> (base = 2 \<and> pfx2) then
                  (if take 1 (drop 2 s2) = ''_'' then drop 3 s2 else drop 2 s2)
                else s2)
      in if take 1 s3 = ''_'' then Inl ValueError
         else ebind (scan_digits base False 0 False s3) (\<lambda>(z, seen, rest).
              if error_if_nonzero \<and> z \<noteq> 0 then Inl ValueError
              else if \<not> seen then Inl ValueError
              else if lstrip rest \<noteq> [] then Inl ValueError
              else Inr (if neg then - z else z)))"

definition hex_digit :: "int \<Rightarrow> char" where
  "hex_digit n = ''0123456789abcdef'' ! nat n"

text \<open>The digits of a natural number (given as an \<open>int\<close> that is not negative) in base 16
  and in base 10.\<close>

function hex_digits :: "int \<Rightarrow> string" where
  "hex_digits n =
     (if n < 16 then [hex_digit n] else hex_digits (n div 16) @ [hex_digit (n mod 16)])"
  by pat_completeness auto
termination
  by (relation "measure nat") auto

function dec_digits :: "int \<Rightarrow> string" where
  "dec_digits n =
     (if n < 10 then [hex_digit n] else dec_digits (n div 10) @ [hex_digit (n mod 10)])"
  by pat_completeness auto
termination
  by (relation "measure nat") auto

text \<open>\<open>hex(v)\<close> and \<open>str(v)\<close> for an integer\<close>

definition py_hex :: "int \<Rightarrow> string" where
  "py_hex v = (if v < 0 then ''-0x'' @ hex_digits (- v) else ''0x'' @ hex_digits v)"

definition py_str :: "int \<Rightarrow> string" where
  "py_str v = (if v < 0 then ''-'' @ dec_digits (- v) else dec_digits v)"

text \<open>Shifts of Python integers: a negative shift count raises \<open>ValueError\<close>.\<close>

definition py_shl :: "int \<Rightarrow> int \<Rightarrow> error + int" where
  "py_shl a n = (if n < 0 then Inl ValueError else Inr (push_bit (nat n) a))"

definition py_shr :: "int \<Rightarrow> int \<Rightarrow> error + int" where
  "py_shr a n = (if n < 0 then Inl ValueError else Inr (drop_bit (nat n) a))"

subsection \<open>Operands\<close>

definition hx :: "string \<Rightarrow> error + int" where
  "hx w = py_int 16 w"

text \<open>\<open>reg(word)\<close>: the hexadecimal index after the width letter.\<close>

definition reg :: "string \<Rightarrow> error + int" where
  "reg w = hx (drop 1 w)"

text \<open>
  \<open>ii(float(x))\<close>, the bits of a single-precision float, is floating-point arithmetic and
  is taken as a parameter of this type.
\<close>

type_synonym float_conv = "string \<Rightarrow> error + int"

text \<open>The last two lines of \<open>val\<close>.\<close>

definition val_int :: "string \<Rightarrow> error + int" where
  "val_int w =
     ebind (py_int 0 (strip_chars ''#'' w)) (\<lambda>v.
     ebind (py_assert (v < 2 ^ 48)) (\<lambda>_. Inr v))"

text \<open>
  \<open>val(word)\<close>. In the \<open>i16:\<close> form the two halves come from the piece between the first
  and the second colon, so they contain no colon and the recursive calls of \<open>val\<close> on them
  run the last two lines only.
\<close>

definition val :: "float_conv \<Rightarrow> string \<Rightarrow> error + int" where
  "val fl w =
     (if startswith w ''float:'' then ebind (py_get (split (CHR '':'') w) 1) fl
      else if startswith w ''i16:'' then
        ebind (py_get (split (CHR '':'') w) 1) (\<lambda>p.
        case split (CHR '','') p of
          [lo, hi] \<Rightarrow>
            ebind (val_int lo) (\<lambda>l.
            ebind (val_int hi) (\<lambda>h.
            ebind (py_assert (l < 2 ^ 16)) (\<lambda>_.
            ebind (py_assert (h < 2 ^ 16)) (\<lambda>_.
            Inr ((l AND 0xffff) OR push_bit 16 h)))))
        | _ \<Rightarrow> Inl ValueError)
      else val_int w)"

text \<open>\<open>d[k]\<close> for a dictionary written as a list of pairs\<close>

definition dict_get :: "('k \<times> 'v) list \<Rightarrow> 'k \<Rightarrow> error + 'v" where
  "dict_get d k = (case map_of d k of None \<Rightarrow> Inl KeyError | Some v \<Rightarrow> Inr v)"

text \<open>\<open>d[k] if k in d else int(k)\<close>\<close>

definition dict_or_int :: "(string \<times> int) list \<Rightarrow> string \<Rightarrow> error + int" where
  "dict_or_int d k = (case map_of d k of None \<Rightarrow> py_int 10 k | Some v \<Rightarrow> Inr v)"

subsection \<open>The instructions that only compute a word\<close>

text \<open>Each function below is one branch of the \<open>if\<close>/\<open>elif\<close> chain of \<open>Context.interpret\<close> and
  returns \<open>(cmd, addr, value)\<close>. An assertion on \<open>len(s)\<close> is the last case of a pattern match
  on \<open>s\<close>.\<close>

type_synonym word3 = "int \<times> int \<times> int"

definition enc_unk :: "float_conv \<Rightarrow> string list \<Rightarrow> error + word3" where
  "enc_unk fl s =
     (case s of
        [_, a] \<Rightarrow>
          ebind (hx a) (\<lambda>h.
          Inr (drop_bit 56 h, drop_bit 48 h AND 0xff, h AND 0xffffffffffff))
      | [_, a, b, v] \<Rightarrow>
          ebind (hx b) (\<lambda>cmd.
          ebind (hx a) (\<lambda>addr.
          ebind (val fl v) (\<lambda>value.
          Inr (cmd, addr, value))))
      | _ \<Rightarrow> Inl AssertionError)"

definition enc_nop :: "float_conv \<Rightarrow> string list \<Rightarrow> error + word3" where
  "enc_nop fl s =
     (case s of
        [_] \<Rightarrow> Inr (0, 0, 0)
      | [_, a, v] \<Rightarrow>
          ebind (hx a) (\<lambda>addr.
          ebind (val fl v) (\<lambda>value.
          Inr (0, addr, value)))
      | _ \<Rightarrow> Inl AssertionError)"

text \<open>\<open>mov\<close> of a register: "This is actually an addition command".\<close>

definition enc_mov_reg :: "string list \<Rightarrow> error + word3" where
  "enc_mov_reg s =
     (case s of
        [_, a, b] \<Rightarrow>
          ebind (py_get a 0) (\<lambda>ca.
          ebind (py_get b 0) (\<lambda>cb.
          ebind (py_assert (ca = cb)) (\<lambda>_.
          ebind (dict_get [(CHR ''x'', 17), (CHR ''w'', 16)] ca) (\<lambda>cmd.
          ebind (reg a) (\<lambda>addr.
          ebind (reg b) (\<lambda>r.
          Inr (cmd, addr, push_bit 40 r)))))))
      | _ \<Rightarrow> Inl AssertionError)"

definition enc_mov_imm :: "float_conv \<Rightarrow> string list \<Rightarrow> error + word3" where
  "enc_mov_imm fl s =
     (case s of
        [_, a, v] \<Rightarrow>
          ebind (py_get a 0) (\<lambda>ca.
          ebind (dict_get [(CHR ''x'', 1), (CHR ''w'', 2)] ca) (\<lambda>cmd.
          ebind (reg a) (\<lambda>addr.
          ebind (val fl v) (\<lambda>value.
          Inr (cmd, addr, value)))))
      | _ \<Rightarrow> Inl AssertionError)"

text \<open>The test \<open>s[0] == "mov" and s[2][0] in "xw"\<close> reads \<open>s[2][0]\<close> and can raise.\<close>

definition enc_mov :: "float_conv \<Rightarrow> string list \<Rightarrow> error + word3" where
  "enc_mov fl s =
     ebind (py_get s 2) (\<lambda>s2.
     ebind (py_get s2 0) (\<lambda>c2.
     if c2 = CHR ''x'' \<or> c2 = CHR ''w'' then enc_mov_reg s else enc_mov_imm fl s))"

definition enc_add :: "float_conv \<Rightarrow> string list \<Rightarrow> error + word3" where
  "enc_add fl s =
     (case s of
        [_, a, b, v] \<Rightarrow>
          ebind (py_get a 0) (\<lambda>ca.
          ebind (py_get b 0) (\<lambda>cb.
          ebind (py_assert (ca = cb)) (\<lambda>_.
          ebind (py_assert (ca = CHR ''w'' \<or> ca = CHR ''x'')) (\<lambda>_.
          ebind (reg a) (\<lambda>addr.
          ebind (reg b) (\<lambda>r.
          ebind (val fl v) (\<lambda>imm.
          Inr (if ca = CHR ''w'' then 16 else 17, addr,
               push_bit 40 r OR (imm AND 0xffffffff)))))))))
      | _ \<Rightarrow> Inl AssertionError)"

fun resources_value :: "int \<Rightarrow> string list \<Rightarrow> error + int" where
  "resources_value v [] = Inr v"
| "resources_value v (t # ts) =
     ebind (case map_of [(''compute'', 0), (''fragment'', 1), (''tiler'', 2), (''idvs'', 3)] t of
              Some i \<Rightarrow> Inr (push_bit i (1 :: int))
            | None \<Rightarrow> py_int 0 t) (\<lambda>b.
     resources_value (v OR b) ts)"

definition enc_resources :: "string list \<Rightarrow> error + word3" where
  "enc_resources s =
     ebind (py_assert (length s \<ge> 2)) (\<lambda>_.
     ebind (resources_value 0 (drop 1 s)) (\<lambda>value.
     Inr (34, 0, value)))"

definition arg_map :: "(string \<times> (string \<times> int) list) list" where
  "arg_map =
     [(''tem'', [(''0'', 0), (''1'', 1)]),
      (''render'', [(''z_order'', 0), (''horizontal'', 0x10), (''vertical'', 0x20),
                    (''reverse_horizontal'', 0x50), (''reverse_vertical'', 0x60)]),
      (''unk'', [(''0'', 0), (''1'', push_bit 32 1)])]"

text \<open>The loop over \<open>zip(s[1::2], s[2::2])\<close>: the pairs of \<open>s[1:]\<close>.\<close>

fun fragment_value :: "int \<Rightarrow> (string \<times> string) list \<Rightarrow> error + int" where
  "fragment_value v [] = Inr v"
| "fragment_value v ((arg, x) # ps) =
     ebind (dict_get arg_map arg) (\<lambda>d.
     ebind (dict_get d x) (\<lambda>b.
     fragment_value (v OR b) ps))"

definition enc_fragment :: "string list \<Rightarrow> error + word3" where
  "enc_fragment s =
     ebind (fragment_value 0 (zip_pairs (drop 1 s))) (\<lambda>value. Inr (7, 0, value))"

text \<open>\<open>sum(1 << int(x) for x in ...)\<close>\<close>

fun wait_sum :: "int \<Rightarrow> string list \<Rightarrow> error + int" where
  "wait_sum acc [] = Inr acc"
| "wait_sum acc (x # xs) =
     ebind (py_int 10 x) (\<lambda>n.
     ebind (py_shl 1 n) (\<lambda>b.
     wait_sum (acc + b) xs))"

definition enc_wait :: "string list \<Rightarrow> error + word3" where
  "enc_wait s =
     (case s of
        [_, a] \<Rightarrow>
          ebind (if a = ''all'' then Inr 255 else wait_sum 0 (split (CHR '','') a)) (\<lambda>value.
          Inr (3, 0, push_bit 16 value))
      | _ \<Rightarrow> Inl AssertionError)"

definition enc_slot :: "string list \<Rightarrow> error + word3" where
  "enc_slot s =
     (case s of
        [_, a] \<Rightarrow> ebind (py_int 0 a) (\<lambda>value. Inr (23, 0, value))
      | _ \<Rightarrow> Inl AssertionError)"

definition modes :: "(string \<times> int) list" where
  "modes =
     [(''none'', 0), (''points'', 1), (''lines'', 2), (''line-strip'', 4), (''line-loop'', 6),
      (''triangles'', 8), (''triangle-strip'', 10), (''triangle-fan'', 12),
      (''polygon'', 13), (''quads'', 14)]"

definition itypes :: "(string \<times> int) list" where
  "itypes = [(''none'', 0), (''uint8'', 1), (''uint16'', 2), (''uint32'', 3)]"

definition enc_idvs :: "float_conv \<Rightarrow> string list \<Rightarrow> error + word3" where
  "enc_idvs fl s =
     (case s of
        [_, u, km, m, ki, i] \<Rightarrow>
          ebind (val fl u) (\<lambda>unk.
          ebind (py_assert (km = ''mode'')) (\<lambda>_.
          ebind (dict_or_int modes m) (\<lambda>mode.
          ebind (py_assert (ki = ''index'')) (\<lambda>_.
          ebind (dict_or_int itypes i) (\<lambda>index.
          Inr (6, 0, push_bit 32 unk OR push_bit 8 index OR mode))))))
      | _ \<Rightarrow> Inl AssertionError)"

definition enc_flush_tiler :: "string list \<Rightarrow> error + word3" where
  "enc_flush_tiler s = (case s of [_] \<Rightarrow> Inr (9, 0, 0) | _ \<Rightarrow> Inl AssertionError)"

text \<open>The checks that \<open>str\<close> and \<open>ldr\<close> make on the address operand, up to the
  stripping of the brackets.\<close>

definition bracket_checks :: "string list \<Rightarrow> error + string list" where
  "bracket_checks s =
     ebind (py_assert (length s = 3 \<or> length s = 4)) (\<lambda>_.
     ebind (py_get s 2) (\<lambda>s2.
     ebind (py_get s2 0) (\<lambda>c.
     ebind (py_assert (c = CHR ''['')) (\<lambda>_.
     ebind (py_get s (- 1)) (\<lambda>sl.
     ebind (py_get sl (- 1)) (\<lambda>cl.
     ebind (py_assert (cl = CHR '']'')) (\<lambda>_.
     let s' = map (strip_chars ''[]'') s in
     ebind (py_get s' 2) (\<lambda>t2.
     ebind (py_get t2 0) (\<lambda>c2.
     ebind (py_assert (c2 = CHR ''x'')) (\<lambda>_.
     Inr s'))))))))))"

text \<open>\<open>dest = reg(s[2])\<close> and the optional offset\<close>

definition dest_offset :: "float_conv \<Rightarrow> string list \<Rightarrow> error + (int \<times> int)" where
  "dest_offset fl s =
     ebind (py_get s 2) (\<lambda>s2.
     ebind (reg s2) (\<lambda>dest.
     ebind (if length s = 4 then ebind (py_get s 3) (val fl) else Inr 0) (\<lambda>ofs.
     Inr (dest, ofs))))"

definition enc_str_time :: "float_conv \<Rightarrow> string list \<Rightarrow> error + word3" where
  "enc_str_time fl s =
     ebind (bracket_checks s) (\<lambda>s'.
     ebind (py_get s' 1) (\<lambda>s1.
     ebind (dest_offset fl s') (\<lambda>(dest, ofs).
     ebind (to_int16 ofs) (\<lambda>o16.
     Inr (40, 0, push_bit 40 dest OR push_bit 32 (if s1 = ''cycles'' then 1 else 0) OR o16)))))"

text \<open>The loop over the pieces of a register list \<open>{...}\<close> of \<open>ldr\<close> and \<open>str\<close>: \<open>src\<close> is
  the first register, \<open>msk\<close> collects the registers relative to it.\<close>

fun reglist_mask :: "int option \<Rightarrow> int \<Rightarrow> string list \<Rightarrow> error + (int option \<times> int)" where
  "reglist_mask src msk [] = Inr (src, msk)"
| "reglist_mask src msk (r # rs) =
     ebind (case split (CHR ''-'') r of
              [a] \<Rightarrow>
                ebind (reg a) (\<lambda>r0.
                let src' = (case src of None \<Rightarrow> r0 | Some x \<Rightarrow> x) in
                ebind (py_get a 0) (\<lambda>c.
                ebind (py_assert (c = CHR ''x'' \<or> c = CHR ''w'')) (\<lambda>_.
                ebind (py_shl (if c = CHR ''x'' then 3 else 1) r0) (\<lambda>n.
                ebind (py_shr n src') (\<lambda>new.
                Inr (src', new))))))
            | [a, b] \<Rightarrow>
                ebind (reg a) (\<lambda>r0.
                ebind (reg b) (\<lambda>r1.
                let src' = (case src of None \<Rightarrow> r0 | Some x \<Rightarrow> x) in
                ebind (py_assert (r1 > r0)) (\<lambda>_.
                ebind (py_shl 2 r1) (\<lambda>hi.
                ebind (py_shl 1 r0) (\<lambda>lo.
                ebind (py_shr (hi - lo) src') (\<lambda>new.
                Inr (src', new)))))))
            | _ \<Rightarrow> Inl AssertionError) (\<lambda>(src', new).
     ebind (py_assert (new < 2 ^ 16)) (\<lambda>_.
     ebind (py_assert (msk AND new = 0)) (\<lambda>_.
     reglist_mask (Some src') (msk OR new) rs)))"

text \<open>\<open>[x[-1] for x in s].index("}")\<close>: the index of the first piece that ends with a closing
  brace; an empty piece before it raises \<open>IndexError\<close>, no such piece \<open>ValueError\<close>.\<close>

fun brace_index :: "nat \<Rightarrow> string list \<Rightarrow> error + nat" where
  "brace_index i [] = Inl ValueError"
| "brace_index i (x # xs) =
     (if x = [] then Inl IndexError
      else if last x = CHR ''}'' then
        (if list_all (\<lambda>y. y \<noteq> []) xs then Inr i else Inl IndexError)
      else brace_index (Suc i) xs)"

datatype reglist = OneReg string | RegList "string list"

definition enc_ldr_str :: "float_conv \<Rightarrow> string list \<Rightarrow> error + word3" where
  "enc_ldr_str fl s0 =
     ebind (py_get s0 1) (\<lambda>s1.
     ebind (py_get s1 0) (\<lambda>c.
     ebind (if c = CHR ''{'' then
              ebind (brace_index 0 s0) (\<lambda>end.
              Inr (RegList (take end (drop 1 s0)), take 1 s0 @ drop end s0))
            else Inr (OneReg s1, s0)) (\<lambda>(reglist, s).
     ebind (bracket_checks s) (\<lambda>s'.
     ebind (case reglist of
              OneReg r \<Rightarrow>
                ebind (py_get r 0) (\<lambda>cr.
                ebind (py_assert (cr = CHR ''x'' \<or> cr = CHR ''w'')) (\<lambda>_.
                ebind (reg r) (\<lambda>src.
                Inr (Some src, if cr = CHR ''x'' then 3 else 1))))
            | RegList rl \<Rightarrow>
                reglist_mask None 0
                  (split (CHR '','') (strip_chars ''{}'' (join '','' rl)))) (\<lambda>(src, mask).
     ebind (dest_offset fl s') (\<lambda>(dest, ofs).
     ebind (py_get s' 0) (\<lambda>op.
     ebind (case src of None \<Rightarrow> Inl TypeError | Some a \<Rightarrow> Inr a) (\<lambda>addr.
     ebind (to_int16 ofs) (\<lambda>o16.
     Inr (if op = ''ldr'' then 20 else 21, addr,
          push_bit 40 dest OR push_bit 16 mask OR o16))))))))))"

definition enc_ev :: "string list \<Rightarrow> error + word3" where
  "enc_ev s =
     ebind (py_assert (5 \<le> length s \<and> length s < 8)) (\<lambda>_.
     ebind (py_get s 1) (\<lambda>s1.
     ebind (py_get s1 0) (\<lambda>c1.
     ebind (py_assert (c1 = CHR ''w'' \<or> c1 = CHR ''x'')) (\<lambda>_.
     ebind (py_get s 2) (\<lambda>s2.
     ebind (py_assert (startswith s2 ''[x'')) (\<lambda>_.
     ebind (py_get s2 (- 1)) (\<lambda>cl.
     ebind (py_assert (cl = CHR '']'')) (\<lambda>_.
     ebind (py_get s 3) (\<lambda>s3.
     ebind (py_assert (s3 = ''unk'')) (\<lambda>_.
     let t = map (strip_chars ''[]()'') s in
     ebind (py_get t 1) (\<lambda>t1.
     ebind (reg t1) (\<lambda>v.
     ebind (py_get t 2) (\<lambda>t2.
     ebind (reg t2) (\<lambda>dst.
     ebind (py_get t 4) (\<lambda>t4.
     ebind (hx t4) (\<lambda>mask.
     ebind (py_get t 0) (\<lambda>t0.
     ebind (py_get t1 0) (\<lambda>w.
     let irq = (if ''irq'' \<in> set t then 0 else 1);
         unk0 = (if ''unk0'' \<in> set t then 1 else 0);
         cmd = (if w = CHR ''w'' then (if t0 = ''evadd'' then 37 else 38)
                else (if t0 = ''evadd'' then 51 else 52))
     in Inr (cmd, 1,
             push_bit 40 dst OR push_bit 32 v OR push_bit 16 mask OR push_bit 2 irq OR unk0
            )))))))))))))))))))"

definition enc_evwait :: "string list \<Rightarrow> error + word3" where
  "enc_evwait s =
     ebind (py_get s 0) (\<lambda>s0.
     ebind (py_assert (list_all (\<lambda>m. m \<in> set [''lo'', ''hi'', ''inherit'', ''no_error''])
                         (drop 1 (split (CHR ''.'') s0)))) (\<lambda>_.
     ebind (py_assert (length s = 3)) (\<lambda>_.
     ebind (py_get s 1) (\<lambda>s1.
     ebind (py_get s1 0) (\<lambda>c1.
     ebind (py_assert (c1 = CHR ''w'' \<or> c1 = CHR ''x'')) (\<lambda>_.
     ebind (py_get s 2) (\<lambda>s2.
     ebind (py_get s2 0) (\<lambda>c2.
     ebind (py_assert (c2 = CHR ''['')) (\<lambda>_.
     ebind (py_get s2 (- 1)) (\<lambda>cl.
     ebind (py_assert (cl = CHR '']'')) (\<lambda>_.
     let t = map (strip_chars ''[]()'') s in
     ebind (py_get t 2) (\<lambda>t2.
     ebind (reg t2) (\<lambda>src.
     ebind (py_get t 1) (\<lambda>t1.
     ebind (reg t1) (\<lambda>v.
     ebind (py_get t 0) (\<lambda>t0.
     ebind (py_get t1 0) (\<lambda>w.
     let cond = (if contains t0 ''.hi'' then 1 else 0);
         err = (if contains t0 ''.no_error'' then 1 else 0)
     in Inr (if w = CHR ''x'' then 53 else 39, 0,
             push_bit 40 src OR push_bit 32 v OR push_bit 28 cond OR err
            ))))))))))))))))))"

definition enc_heapctx :: "string list \<Rightarrow> error + word3" where
  "enc_heapctx s =
     (case s of
        [_, a] \<Rightarrow>
          ebind (py_get a 0) (\<lambda>c.
          ebind (py_assert (c = CHR ''x'')) (\<lambda>_.
          ebind (reg a) (\<lambda>r.
          Inr (48, 0, push_bit 40 r))))
      | _ \<Rightarrow> Inl AssertionError)"

definition enc_heapinc :: "string list \<Rightarrow> error + word3" where
  "enc_heapinc s =
     (case s of
        [_, a] \<Rightarrow>
          ebind (dict_or_int [(''vt_start'', 0), (''vt_end'', 1), (''frag_end'', 3)] a) (\<lambda>mode.
          Inr (49, 0, push_bit 32 mode))
      | _ \<Rightarrow> Inl AssertionError)"

subsection \<open>Branches and calls: instructions that change the Level\<close>

definition ops :: "(string \<times> int) list" where
  "ops =
     [(''b.le'', 0), (''b.gt'', 1), (''b.eq'', 2), (''b.ne'', 3), (''b.lt'', 4), (''b.ge'', 5),
      (''b'', 6), (''b.al'', 6)]"

text \<open>
  The label operand of a branch. \<open>Nb\<close> reads the binding of the number \<open>N\<close>, which must
  exist; \<open>Nf\<close> appends to the pending list of \<open>N\<close>; any other label appends to the pending
  symbolic references, also when the label is already defined. The result is the Level and
  the offset to encode now.
\<close>

definition branch_label :: "Level \<Rightarrow> string \<Rightarrow> error + (Level \<times> int)" where
  "branch_label L label =
     (if is_num (butlast label) \<and> endswith label ''b'' then
        ebind (py_int 10 (butlast label)) (\<lambda>n.
        case num_labels L n of
          None \<Rightarrow> Inl AssertionError
        | Some t \<Rightarrow> Inr (L, resolve_rel t (offset L)))
      else if is_num (butlast label) \<and> endswith label ''f'' then
        ebind (py_int 10 (butlast label)) (\<lambda>n.
        let pending = (case num_refs L n of None \<Rightarrow> [] | Some refs \<Rightarrow> refs) in
        Inr (L\<lparr>num_refs := (num_refs L)(n \<mapsto> pending @ [(Num n, offset L, ''rel'')])\<rparr>, 0))
      else
        ebind (py_assert (\<not> is_num label)) (\<lambda>_.
        Inr (L\<lparr>label_refs := label_refs L @ [(Name label, offset L, ''rel'')]\<rparr>, 0)))"

definition enc_branch :: "float_conv \<Rightarrow> Level \<Rightarrow> string list \<Rightarrow> error + (Level \<times> word3)" where
  "enc_branch fl L s0 =
     ebind (py_get s0 0) (\<lambda>op.
     let s = (if op = ''b'' \<and> (length s0 = 2 \<or>
                  (length s0 = 3 \<and> (s0 ! 1 = ''back'' \<or> s0 ! 1 = ''skip'')))
              then op # ''w00'' # drop 1 s0 else s0) in
     ebind (py_assert (length s = 3 \<or>
                       (length s = 4 \<and> (s ! 2 = ''back'' \<or> s ! 2 = ''skip'')))) (\<lambda>_.
     ebind (py_get s 1) (\<lambda>s1.
     ebind (py_get s1 0) (\<lambda>c.
     ebind (py_assert (c = CHR ''w'')) (\<lambda>_.
     ebind (reg s1) (\<lambda>src.
     ebind (py_get s 2) (\<lambda>s2.
     ebind (if length s = 4 then
              ebind (py_get s 3) (\<lambda>s3.
              ebind (val fl s3) (\<lambda>ofs.
              Inr (L, if s2 = ''back'' then - 1 - ofs else ofs)))
            else branch_label L s2) (\<lambda>(L', ofs).
     ebind (dict_get ops op) (\<lambda>opv.
     ebind (to_int16 ofs) (\<lambda>o16.
     Inr (L', (22, 0, push_bit 40 src OR push_bit 28 opv OR o16))))))))))))"

text \<open>One round of the loop \<open>for ofs in range(cur - 2, cur)\<close> of a call.\<close>

definition call_scan :: "int \<Rightarrow> int \<Rightarrow> Level \<Rightarrow> int \<Rightarrow> error + Level" where
  "call_scan target num L ofs =
     ebind (py_get (buffer L) ofs) (\<lambda>w.
     let L1 = (if drop_bit 48 w = 0x100 + target then L\<lparr>call_addr_offset := Some ofs\<rparr> else L)
     in Inr (if drop_bit 48 w = 0x200 + num then L1\<lparr>call_len_offset := Some ofs\<rparr> else L1))"

definition enc_call :: "Level \<Rightarrow> string list \<Rightarrow> error + (Level \<times> word3)" where
  "enc_call L s =
     (case filter (\<lambda>x. CHR ''('' \<notin> set x \<and> CHR '')'' \<notin> set x) s of
        [_, a, b] \<Rightarrow>
          ebind (py_get a 0) (\<lambda>ca.
          ebind (py_assert (ca = CHR ''w'')) (\<lambda>_.
          ebind (py_get b 0) (\<lambda>cb.
          ebind (py_assert (cb = CHR ''x'')) (\<lambda>_.
          ebind (py_get s 0) (\<lambda>op.
          ebind (dict_get [(''call'', 32), (''tailcall'', 33)] op) (\<lambda>cmd.
          ebind (reg a) (\<lambda>num.
          ebind (reg b) (\<lambda>target.
          let cur = int (length (buffer L)) in
          ebind (call_scan target num L (cur - 2)) (\<lambda>L1.
          ebind (call_scan target num L1 (cur - 1)) (\<lambda>L2.
          ebind (py_assert (call_addr_offset L2 \<noteq> None)) (\<lambda>_.
          ebind (py_assert (call_len_offset L2 \<noteq> None)) (\<lambda>_.
          Inr (L2, (cmd, 0, push_bit 32 num OR push_bit 40 target))))))))))))))
      | _ \<Rightarrow> Inl AssertionError)"

subsection \<open>Instructions of several words\<close>

definition enc_movp :: "string list \<Rightarrow> error + int list" where
  "enc_movp s =
     (case s of
        [_, a, v] \<Rightarrow>
          ebind (py_get a 0) (\<lambda>c.
          ebind (py_assert (c = CHR ''x'')) (\<lambda>_.
          ebind (reg a) (\<lambda>addr.
          ebind (py_int 0 (strip_chars ''#'' v)) (\<lambda>value.
          Inr [push_bit 56 2 OR push_bit 48 addr OR (value AND 0xffffffff),
               push_bit 56 2 OR push_bit 48 (addr + 1) OR (drop_bit 32 value AND 0xffffffff)]))))
      | _ \<Rightarrow> Inl AssertionError)"

definition enc_regdump :: "string list \<Rightarrow> error + int list" where
  "enc_regdump s =
     (case s of
        [_, a] \<Rightarrow>
          ebind (py_get a 0) (\<lambda>c.
          ebind (py_assert (c = CHR ''x'')) (\<lambda>_.
          ebind (reg a) (\<lambda>dest.
          let value = push_bit 40 dest OR push_bit 16 (push_bit 16 1 - 1) in
          Inr (map (\<lambda>i. push_bit 56 21 OR push_bit 48 i OR value OR push_bit 2 i)
                 [0, 16, 32, 48, 64, 80]))))
      | _ \<Rightarrow> Inl AssertionError)"

subsection \<open>Directives\<close>

definition alloc_id_of :: "Context \<Rightarrow> string \<Rightarrow> error + int" where
  "alloc_id_of c nm = (case map_of (allocs c) nm of None \<Rightarrow> Inl KeyError | Some a \<Rightarrow> Inr (alloc_id a))"

definition dir_cs :: "Context \<Rightarrow> string list \<Rightarrow> error + Context" where
  "dir_cs c s =
     (case s of
        [_, a] \<Rightarrow>
          ebind (flush_exe c) (\<lambda>c1.
          ebind (py_int 10 a) (\<lambda>n.
          Inr (c1\<lparr>last_exe := Some (int (length (exe c1))),
                  exe := exe c1 @ [ExeList [S ''exe'', I n]]\<rparr>)))
      | _ \<Rightarrow> Inl AssertionError)"

definition dir_parallel :: "Context \<Rightarrow> string list \<Rightarrow> error + Context" where
  "dir_parallel c s =
     (case s of
        [_, a] \<Rightarrow>
          ebind (flush_exe c) (\<lambda>c1.
          ebind (py_get (exe c1) (- 1)) (\<lambda>e.
          ebind (py_int 10 a) (\<lambda>n.
          ebind (case e of ExeList xs \<Rightarrow> Inr (ExeList (xs @ [I n]))
                 | ExeTuple xs \<Rightarrow> Inl TypeError) (\<lambda>e'.
          ebind (py_set (exe c1) (- 1) e') (\<lambda>ex.
          Inr (c1\<lparr>last_exe := Some (int (length (exe c1)) - 1), exe := ex\<rparr>))))))
      | _ \<Rightarrow> Inl AssertionError)"

definition dir_alloc :: "float_conv \<Rightarrow> Context \<Rightarrow> string list \<Rightarrow> error + Context" where
  "dir_alloc fl c s =
     ebind (py_assert (length s = 3 \<or> length s = 4)) (\<lambda>_.
     ebind (py_get s 1) (\<lambda>nm.
     ebind (py_get s 2) (\<lambda>s2.
     ebind (py_int 10 s2) (\<lambda>sz.
     ebind (if length s = 4 then ebind (py_get s 3) (val fl) else Inr 0x280f) (\<lambda>flags.
     let (a, c1) = new_Alloc c sz flags in
     Inr (c1\<lparr>allocs := AList.update nm a (allocs c1)\<rparr>))))))"

definition dump_modes :: "(string \<times> string) list" where
  "dump_modes =
     [(''!dump'', ''hex''), (''!dump64'', ''hex64''), (''!fdump'', ''filehex''),
      (''!delta'', ''delta''), (''!tiler'', ''tiler'')]"

definition dir_dump :: "float_conv \<Rightarrow> Context \<Rightarrow> string list \<Rightarrow> error + Context" where
  "dir_dump fl c s =
     (case s of
        [op, nm, po, z] \<Rightarrow>
          ebind (val fl po) (\<lambda>ofs.
          ebind (val fl z) (\<lambda>sz.
          ebind (dict_get dump_modes op) (\<lambda>mode.
          ebind (alloc_id_of c nm) (\<lambda>i.
          Inr (c\<lparr>exe := exe c @ [ExeTuple [S ''dump'', I i, I ofs, I sz, S mode]]\<rparr>)))))
      | _ \<Rightarrow> Inl AssertionError)"

definition dir_heatmap :: "float_conv \<Rightarrow> Context \<Rightarrow> string list \<Rightarrow> error + Context" where
  "dir_heatmap fl c s =
     (case s of
        [_, nm, po, z, kg, g, kl, n, ks, st] \<Rightarrow>
          ebind (py_assert (kg = ''gran'')) (\<lambda>_.
          ebind (py_assert (kl = ''len'')) (\<lambda>_.
          ebind (py_assert (ks = ''stride'')) (\<lambda>_.
          ebind (val fl po) (\<lambda>ofs.
          ebind (val fl z) (\<lambda>sz.
          ebind (val fl g) (\<lambda>granularity.
          ebind (val fl n) (\<lambda>len.
          ebind (val fl st) (\<lambda>stride.
          ebind (alloc_id_of c nm) (\<lambda>i.
          Inr (c\<lparr>exe := exe c @
                 [ExeTuple [S ''heatmap'', I i, I ofs, I sz, I granularity, I len, I stride]]
               \<rparr>))))))))))
      | _ \<Rightarrow> Inl AssertionError)"

definition dir_memset :: "float_conv \<Rightarrow> Context \<Rightarrow> string list \<Rightarrow> error + Context" where
  "dir_memset fl c s =
     (case s of
        [_, nm, po, v, z] \<Rightarrow>
          ebind (val fl po) (\<lambda>ofs.
          ebind (val fl v) (\<lambda>value.
          ebind (val fl z) (\<lambda>sz.
          ebind (alloc_id_of c nm) (\<lambda>i.
          Inr (c\<lparr>exe := exe c @ [ExeTuple [S ''memset'', I i, I ofs, I value, I sz]]\<rparr>)))))
      | _ \<Rightarrow> Inl AssertionError)"

definition dir_raw :: "Context \<Rightarrow> string list \<Rightarrow> Context" where
  "dir_raw c s = c\<lparr>exe := exe c @ [ExeList (map S (drop 1 s))]\<rparr>"

subsection \<open>One line of program text\<close>

text \<open>What a line does after its operands are read: it computes a word that the end of the
  loop body appends, or it has done its work and the loop continues.\<close>

datatype outcome = Emit Context word3 | Continue Context

definition pure_word :: "Context \<Rightarrow> error + word3 \<Rightarrow> error + outcome" where
  "pure_word c r = ebind r (\<lambda>w. Inr (Emit c w))"

definition append_words :: "Context \<Rightarrow> int \<Rightarrow> int list \<Rightarrow> Context" where
  "append_words c lid ws =
     c\<lparr>store := AList.update lid ((objs c lid)\<lparr>buffer := buffer (objs c lid) @ ws\<rparr>) (store c)\<rparr>"

text \<open>The \<open>if\<close>/\<open>elif\<close> chain on \<open>s[0]\<close>, in the order of the source; \<open>lid\<close> is the id of
  \<open>self.l\<close>. The second \<open>elif s[0] == "add"\<close> of the source is never reached and is left
  out. A mnemonic that no branch knows is printed on the standard error stream and gives
  the word 0.\<close>

definition dispatch ::
  "float_conv \<Rightarrow> Context \<Rightarrow> int \<Rightarrow> string \<Rightarrow> string list \<Rightarrow> error + outcome" where
  "dispatch fl c lid orig_line s =
     ebind (py_get s 0) (\<lambda>s0.
     if s0 = ''!cs'' then ebind (dir_cs c s) (\<lambda>c'. Inr (Continue c'))
     else if s0 = ''!parallel'' then ebind (dir_parallel c s) (\<lambda>c'. Inr (Continue c'))
     else if s0 = ''!alloc'' then ebind (dir_alloc fl c s) (\<lambda>c'. Inr (Continue c'))
     else if s0 \<in> set [''!dump'', ''!dump64'', ''!fdump'', ''!delta'', ''!tiler''] then
       ebind (dir_dump fl c s) (\<lambda>c'. Inr (Continue c'))
     else if s0 = ''!heatmap'' then ebind (dir_heatmap fl c s) (\<lambda>c'. Inr (Continue c'))
     else if s0 = ''!memset'' then ebind (dir_memset fl c s) (\<lambda>c'. Inr (Continue c'))
     else if s0 = ''!raw'' then Inr (Continue (dir_raw c s))
     else if s0 = ''movp'' then
       ebind (enc_movp s) (\<lambda>ws. Inr (Continue (append_words c lid ws)))
     else if s0 = ''regdump'' then
       ebind (enc_regdump s) (\<lambda>ws. Inr (Continue (append_words c lid ws)))
     else if s0 = ''unk'' then pure_word c (enc_unk fl s)
     else if s0 = ''nop'' then pure_word c (enc_nop fl s)
     else if s0 = ''mov'' then pure_word c (enc_mov fl s)
     else if s0 = ''add'' then pure_word c (enc_add fl s)
     else if s0 = ''resources'' then pure_word c (enc_resources s)
     else if s0 = ''fragment'' then pure_word c (enc_fragment s)
     else if s0 = ''wait'' then pure_word c (enc_wait s)
     else if s0 = ''slot'' then pure_word c (enc_slot s)
     else if s0 = ''idvs'' then pure_word c (enc_idvs fl s)
     else if s0 = ''flush_tiler'' then pure_word c (enc_flush_tiler s)
     else if s0 = ''str'' \<or> s0 = ''ldr'' then
       ebind (if s0 = ''str'' then
                ebind (py_get s 1) (\<lambda>s1. Inr (s1 = ''cycles'' \<or> s1 = ''timestamp''))
              else Inr False) (\<lambda>timed.
       if timed then pure_word c (enc_str_time fl s) else pure_word c (enc_ldr_str fl s))
     else if s0 = ''b'' \<or> startswith s0 ''b.'' then
       ebind (enc_branch fl (objs c lid) s) (\<lambda>(L', w).
       Inr (Emit (c\<lparr>store := AList.update lid L' (store c)\<rparr>) w))
     else if s0 = ''evadd'' \<or> s0 = ''evstr'' then pure_word c (enc_ev s)
     else if py_get (split (CHR ''.'') s0) 0 = Inr ''evwait'' then pure_word c (enc_evwait s)
     else if s0 = ''call'' \<or> s0 = ''tailcall'' then
       ebind (enc_call (objs c lid) s) (\<lambda>(L', w).
       Inr (Emit (c\<lparr>store := AList.update lid L' (store c), is_call := True\<rparr>) w))
     else if s0 = ''heapctx'' then pure_word c (enc_heapctx s)
     else if s0 = ''heapinc'' then pure_word c (enc_heapinc s)
     else Inr (Emit (c\<lparr>printed := printed c @ [''Unknown command: '' @ orig_line]\<rparr>)
                 (0, 0, 0)))"

text \<open>The end of the loop body: the word is built, compared with the annotation of the
  line if there is one that is not zero, and appended to the buffer of \<open>self.l\<close>.\<close>

definition code_of :: "word3 \<Rightarrow> int" where
  "code_of w = (case w of (cmd, addr, value) \<Rightarrow> push_bit 56 cmd OR push_bit 48 addr OR value)"

definition mismatch :: "int option \<Rightarrow> int \<Rightarrow> bool" where
  "mismatch given_code code =
     (case given_code of None \<Rightarrow> False | Some g \<Rightarrow> g \<noteq> 0 \<and> code \<noteq> g)"

definition emit ::
  "Context \<Rightarrow> int \<Rightarrow> int option \<Rightarrow> string \<Rightarrow> word3 \<Rightarrow> Context" where
  "emit c lid given_code orig_line w =
     (let code = code_of w;
          c1 = (if mismatch given_code code then
                  c\<lparr>printed := printed c @
                      [''Mismatch! '' @ py_hex code @ '' != '' @
                       py_hex (case given_code of None \<Rightarrow> 0 | Some g \<Rightarrow> g) @ '', '' @ orig_line]\<rparr>
                else c)
      in append_words c1 lid [code])"

text \<open>The definition of a label at the start of a line.\<close>

definition define_label :: "Level \<Rightarrow> string \<Rightarrow> error + (Level \<times> string list)" where
  "define_label L s0 =
     (let label = (if endswith s0 '':'' then butlast s0 else s0) in
      if is_num label then
        ebind (py_int 10 label) (\<lambda>n.
        ebind (case num_refs L n of
                 None \<Rightarrow> Inr L
               | Some refs \<Rightarrow>
                   ebind (process_relocs L refs (Some (offset L))) (\<lambda>L1.
                   Inr (L1\<lparr>num_refs := (num_refs L1)(n := None)\<rparr>))) (\<lambda>L2.
        Inr (L2\<lparr>num_labels := (num_labels L2)(n \<mapsto> offset L2)\<rparr>, [])))
      else
        Inr (L\<lparr>labels := (labels L)(label \<mapsto> offset L)\<rparr>,
             if labels L label \<noteq> None
             then [''Label reuse is not supported for non-numeric labels''] else []))"

text \<open>
  The function \<open>is_num\<close> is defined by a \<open>def\<close> further down in the loop body, so it is a
  local variable of \<open>Context.interpret\<close> that has no value until the first line has passed
  that \<open>def\<close>. Every line before that one is blank, or raises; so \<open>is_num\<close> is bound
  exactly when \<open>old_indent\<close> is not \<open>None\<close> at the start of the line. \<open>bound\<close> says so.
  The result is the Context and what is left of \<open>s\<close>.
\<close>

definition label_step ::
  "bool \<Rightarrow> Context \<Rightarrow> int \<Rightarrow> string list \<Rightarrow> error + (Context \<times> string list)" where
  "label_step bound c lid s =
     ebind (py_get s 0) (\<lambda>s0.
     ebind (if endswith s0 '':'' then Inr True
            else if length s = 1 then
              (if bound then Inr (is_num s0) else Inl UnboundLocalError)
            else Inr False) (\<lambda>is_label.
     if is_label then
       ebind (if bound then Inr () else Inl UnboundLocalError) (\<lambda>_.
       ebind (define_label (objs c lid) s0) (\<lambda>(L', msgs).
       Inr (c\<lparr>store := AList.update lid L' (store c), printed := printed c @ msgs\<rparr>, drop 1 s)))
     else Inr (c, s)))"

text \<open>The loop that replaces the operands \<open>$name\<close>, \<open>$name+offset\<close> and \<open>$.\<close>; \<open>seen\<close> are the
  operands already passed, so that \<open>s[0]\<close> is the first of \<open>seen\<close>, if there is one.\<close>

fun subst_refs ::
  "Context \<Rightarrow> int \<Rightarrow> string list \<Rightarrow> string list \<Rightarrow> error + (Context \<times> string list)" where
  "subst_refs c lid seen [] = Inr (c, seen)"
| "subst_refs c lid seen (t # ts) =
     (if startswith t ''$'' then
        (case split (CHR ''+'') (drop 1 t) of
           [] \<Rightarrow> Inl ValueError
         | name # offs \<Rightarrow>
             ebind (if name = ''.'' then Inr lid else alloc_id_of c name) (\<lambda>bid.
             ebind (case offs of
                      [] \<Rightarrow> Inr 0
                    | [x] \<Rightarrow> py_int 0 x
                    | _ \<Rightarrow> Inl AssertionError) (\<lambda>off.
             let r = (lid, offset (objs c lid), bid, off);
                 first = (case seen of [] \<Rightarrow> t | x # _ \<Rightarrow> x)
             in subst_refs
                  (if first = ''movp'' then c\<lparr>reloc_split := reloc_split c @ [r]\<rparr>
                   else c\<lparr>reloc := reloc c @ [r]\<rparr>)
                  lid (seen @ [''#0x0'']) ts)))
      else subst_refs c lid (seen @ [t]) ts)"

text \<open>The start of the loop body: a deeper line opens a Level (only after a call), a
  shallower one pops.\<close>

definition enter_line :: "Context \<Rightarrow> nat option \<Rightarrow> nat \<Rightarrow> error + Context" where
  "enter_line c old_indent ind =
     ebind (case old_indent of
              None \<Rightarrow> Inr (push_Level c ind)
            | Some oi \<Rightarrow>
                if ind \<noteq> oi then
                  (if ind > oi then
                     ebind (py_assert (is_call c)) (\<lambda>_. Inr (push_Level c ind))
                   else pop_until c ind)
                else Inr c) (\<lambda>c1.
     Inr ((set_l c1)\<lparr>is_call := False\<rparr>))"

text \<open>\<open>orig_line.split("@")[0].expandtabs().rstrip().lower()\<close>\<close>

definition clean_line :: "string \<Rightarrow> string" where
  "clean_line orig_line =
     lower (rstrip (expandtabs (case split (CHR ''@'') orig_line of [] \<Rightarrow> [] | x # _ \<Rightarrow> x)))"

text \<open>The annotation of a line: 16 hexadecimal digits and a space before the instruction.\<close>

definition given_code_of :: "string \<Rightarrow> error + (int option \<times> string)" where
  "given_code_of line =
     (if has_given_code line then
        ebind (py_int 16 (take 16 line)) (\<lambda>g. Inr (Some g, lstrip (drop 16 line)))
      else Inr (None, line))"

text \<open>The state of the loop is the Context and \<open>old_indent\<close>.\<close>

definition interpret_line ::
  "float_conv \<Rightarrow> Context \<times> nat option \<Rightarrow> string \<Rightarrow> error + (Context \<times> nat option)" where
  "interpret_line fl st orig_line =
     (let line = clean_line orig_line in
      if line = [] then Inr st
      else
        let ind = length line - length (lstrip line) in
        ebind (enter_line (fst st) (snd st) ind) (\<lambda>c1.
        ebind (given_code_of (lstrip line)) (\<lambda>(given_code, line2).
        let s = map (strip_chars '','') (split_ws line2) in
        ebind (case ctx_l c1 of None \<Rightarrow> Inl AttributeError | Some i \<Rightarrow> Inr i) (\<lambda>lid.
        ebind (label_step (snd st \<noteq> None) c1 lid s) (\<lambda>(c2, s1).
        if s1 = [] then Inr (c2, Some ind)
        else
          ebind (subst_refs c2 lid [] s1) (\<lambda>(c3, s2).
          ebind (dispatch fl c3 lid orig_line s2) (\<lambda>r.
          case r of
            Continue c4 \<Rightarrow> Inr (c4, Some ind)
          | Emit c4 w \<Rightarrow>
              ebind (case ctx_l c4 of None \<Rightarrow> Inl AttributeError | Some i \<Rightarrow> Inr i) (\<lambda>lid'.
              Inr (emit c4 lid' given_code orig_line w, Some ind)))))))))"

fun interpret_lines ::
  "float_conv \<Rightarrow> Context \<times> nat option \<Rightarrow> string list \<Rightarrow> error + (Context \<times> nat option)" where
  "interpret_lines fl st [] = Inr st"
| "interpret_lines fl st (ln # lns) =
     ebind (interpret_line fl st ln) (\<lambda>st'. interpret_lines fl st' lns)"

text \<open>The method \<open>Context.interpret\<close>\<close>

definition Context_interpret :: "float_conv \<Rightarrow> Context \<Rightarrow> string \<Rightarrow> error + Context" where
  "Context_interpret fl c text =
     ebind (interpret_lines fl (c, None) (split (CHR 0x0A) text)) (\<lambda>(c1, _).
     case levels c1 of
       [] \<Rightarrow> Inl IndexError
     | l0 # _ \<Rightarrow> ebind (pop_until c1 (indent (objs c1 l0))) flush_exe)"

subsection \<open>Serialization and the function \<open>interpret\<close> of the module\<close>

definition repr_Alloc :: "Alloc \<Rightarrow> string" where
  "repr_Alloc a =
     ''buffer '' @ py_str (alloc_id a) @ '' '' @ py_str (alloc_size a) @ '' '' @
     py_hex (alloc_flags a) @ '' '' @ join '' '' (map py_hex (alloc_buffer a))"

definition repr_Level :: "int \<Rightarrow> Level \<Rightarrow> string" where
  "repr_Level i L =
     ''buffer '' @ py_str i @ '' '' @ py_str (offset L) @ '' 0x200f '' @
     join '' '' (map py_hex (buffer L))"

definition fmt_reloc :: "string \<Rightarrow> reloc_rec \<Rightarrow> string" where
  "fmt_reloc name r =
     (case r of (dst, ofs, src, src_offset) \<Rightarrow>
        name @ '' '' @ py_str dst @ ''+'' @ py_str ofs @ '' '' @ py_str src @ ''+'' @
        py_str src_offset)"

definition fmt_exe :: "exe_entry \<Rightarrow> string" where
  "fmt_exe e =
     join '' '' (map (\<lambda>x. case x of S t \<Rightarrow> t | I n \<Rightarrow> py_str n)
                  (case e of ExeList xs \<Rightarrow> xs | ExeTuple xs \<Rightarrow> xs))"

definition repr_Context :: "Context \<Rightarrow> string" where
  "repr_Context c =
     join [CHR 0x0A]
       (map (\<lambda>(n, a). repr_Alloc a) (allocs c) @
        map (\<lambda>i. repr_Level i (objs c i)) (completed c) @
        map (fmt_reloc ''reloc'') (reloc c) @
        map (fmt_reloc ''relsplit'') (reloc_split c) @
        map fmt_exe (exe c))"

text \<open>
  \<open>assemble_shader\<close> with the encoder \<open>asm.parse_asm\<close> of the shader instruction set, which is
  outside this file, as a parameter.
\<close>

fun map_err :: "('a \<Rightarrow> error + 'b) \<Rightarrow> 'a list \<Rightarrow> error + 'b list" where
  "map_err f [] = Inr []"
| "map_err f (x # xs) = ebind (f x) (\<lambda>y. ebind (map_err f xs) (\<lambda>ys. Inr (y # ys)))"

definition assemble_shader :: "(string \<Rightarrow> error + int) \<Rightarrow> string \<Rightarrow> error + int list" where
  "assemble_shader parse_asm text =
     map_err parse_asm
       (filter (\<lambda>ln. ln \<noteq> [] \<and> hd ln \<noteq> CHR ''#'' \<and> hd ln \<noteq> CHR ''@'')
          (split (CHR 0x0A) (strip text)))"

fun add_shaders ::
  "(string \<Rightarrow> error + int) \<Rightarrow> Context \<Rightarrow> (string \<times> string) list \<Rightarrow> error + Context" where
  "add_shaders parse_asm c [] = Inr c"
| "add_shaders parse_asm c ((sh, text) # shs) =
     ebind (assemble_shader parse_asm text) (\<lambda>qwords.
     let (a, c1) = new_Alloc c (int (length qwords) * 8) 0x2017 in
     add_shaders parse_asm
       (c1\<lparr>allocs := AList.update (lower sh) (a\<lparr>alloc_buffer := qwords\<rparr>) (allocs c1)\<rparr>) shs)"

text \<open>The tables \<open>shaders\<close>, \<open>memory\<close> and \<open>descriptors\<close> of the module are parameters.\<close>

record tables =
  shaders :: "(string \<times> string) list"
  memory :: "(string \<times> mem_spec) list"
  descriptors :: "(string \<times> desc_entry list) list"

text \<open>
  The function \<open>interpret(text)\<close> of the module, up to the call of \<open>str\<close>: \<open>n\<close> is the value of
  \<open>Buffer.id\<close> when it is called.
\<close>

definition assemble ::
  "float_conv \<Rightarrow> (string \<Rightarrow> error + int) \<Rightarrow> tables \<Rightarrow> int \<Rightarrow> string \<Rightarrow> error + Context" where
  "assemble fl parse_asm tb n text =
     ebind (add_shaders parse_asm (new_Context n) (shaders tb)) (\<lambda>c1.
     ebind (add_descriptors (add_memory c1 (memory tb)) (descriptors tb)) (\<lambda>c2.
     Context_interpret fl c2 text))"

text \<open>\<open>interpret\<close> is a keyword of Isabelle, so the function is \<open>interpret_text\<close> here. Its
  result is the text and, as the effect on the process, the new value
  of \<open>Buffer.id\<close>.\<close>

definition interpret_text ::
  "float_conv \<Rightarrow> (string \<Rightarrow> error + int) \<Rightarrow> tables \<Rightarrow> int \<Rightarrow> string \<Rightarrow> error + (string \<times> int)" where
  "interpret_text fl parse_asm tb n text =
     ebind (assemble fl parse_asm tb n text) (\<lambda>c. Inr (repr_Context c, next_id c))"

section \<open>Properties\<close>

subsection \<open>Branch displacement and its range check\<close>

lemma to_int16_in_range:
  "- 32768 \<le> v \<Longrightarrow> v < 32768 \<Longrightarrow> to_int16 v = Inr (v mod 65536)"
proof -
  assume "- 32768 \<le> v" and "v < 32768"
  moreover have "v AND 0xffff = take_bit 16 v"
    using take_bit_eq_mask [of 16 v] by (simp add: mask_eq_exp_minus_1)
  ultimately show ?thesis
    by (simp add: to_int16_def take_bit_eq_mod)
qed

lemma to_int16_below: "v < - 32768 \<Longrightarrow> to_int16 v = Inl AssertionError"
  by (simp add: to_int16_def)

text \<open>
  C1. The claim: the stored displacement of a branch to a label is
  \<open>(target - source) div 8 - 1\<close> as a signed 16-bit value, a distance of 32767 assembles and a
  distance of 32768 is fatal. The upper assertion of \<open>to_int16\<close> compares with 36768, not
  32768. So the distance 32768 is accepted: a branch at offset 0 whose label stands 32769
  words further (offset 262152) is resolved by \<open>finish\<close> without an error, and the 16 bits
  stored are \<open>0x8000\<close>, which read as a signed 16-bit value are -32768. Every distance up
  to 36767 passes; the first one refused is 36768.
\<close>

theorem to_int16_accepts_32768:
  "resolve_rel 262152 0 = 32768
   \<and> to_int16 32767 = Inr 32767
   \<and> to_int16 32768 = Inr 0x8000
   \<and> to_int16 (- 32768) = Inr 0x8000
   \<and> to_int16 36767 = Inr 36767
   \<and> to_int16 36768 = Inl AssertionError
   \<and> finish ((new_Level 0)\<lparr>buffer := 0x1600000060000000 # replicate 32768 0,
          labels := [''far'' \<mapsto> 262152], label_refs := [(Name ''far'', 0, ''rel'')]\<rparr>)
       = Inr ((new_Level 0)\<lparr>buffer := 0x1600000060008000 # replicate 32768 0,
          labels := [''far'' \<mapsto> 262152], label_refs := [(Name ''far'', 0, ''rel'')]\<rparr>)"
  by (simp add: finish_def new_Level_def labels_lookup_def py_assert_def resolve_rel_def
      to_int16_def buffer_add_value_def py_get_def py_set_def py_index_def)

subsection \<open>Packing of descriptor tables\<close>

text \<open>The number of 32-bit entries of a table, the entries themselves, and the condition
  that every buffer a table names is in the registry.\<close>

fun entry_count :: "desc_entry list \<Rightarrow> nat" where
  "entry_count [] = 0"
| "entry_count (Lit n # ws) = 1 + entry_count ws"
| "entry_count (Ref nm # ws) = 2 + entry_count ws"
| "entry_count (RefOff nm off # ws) = 2 + entry_count ws"

fun entries :: "desc_entry list \<Rightarrow> int list" where
  "entries [] = []"
| "entries (Lit n # ws) = n # entries ws"
| "entries (Ref nm # ws) = 0 # 0 # entries ws"
| "entries (RefOff nm off # ws) = 0 # 0 # entries ws"

fun refs_bound :: "(string \<times> Alloc) list \<Rightarrow> desc_entry list \<Rightarrow> bool" where
  "refs_bound al [] = True"
| "refs_bound al (Lit n # ws) = refs_bound al ws"
| "refs_bound al (Ref nm # ws) = (map_of al nm \<noteq> None \<and> refs_bound al ws)"
| "refs_bound al (RefOff nm off # ws) = (map_of al nm \<noteq> None \<and> refs_bound al ws)"

lemma length_entries: "length (entries ws) = entry_count ws"
  by (induction ws rule: entries.induct) auto

lemma desc_words_bound:
  "refs_bound (allocs c) ws \<Longrightarrow>
     \<exists>c'. desc_words c aid ws buf = Inr (buf @ entries ws, c') \<and> allocs c' = allocs c"
proof (induction c aid ws buf rule: desc_words.induct)
  case (1 c aid buf)
  then show ?case by simp
next
  case (2 c aid n ws buf)
  then show ?case by simp
next
  case (3 c aid nm ws buf)
  then obtain ref where r: "map_of (allocs c) nm = Some ref" by auto
  let ?c = "c\<lparr>reloc := reloc c @ [(aid, int (length buf) * 4, alloc_id ref, 0)]\<rparr>"
  from 3 r have "\<exists>c'. desc_words ?c aid ws (buf @ [0, 0]) = Inr ((buf @ [0, 0]) @ entries ws, c')
      \<and> allocs c' = allocs ?c" by simp
  with r show ?case by auto
next
  case (4 c aid nm off ws buf)
  then obtain ref where r: "map_of (allocs c) nm = Some ref" by auto
  let ?c = "c\<lparr>reloc := reloc c @ [(aid, int (length buf) * 4, alloc_id ref, off)]\<rparr>"
  from 4 r have "\<exists>c'. desc_words ?c aid ws (buf @ [0, 0]) = Inr ((buf @ [0, 0]) @ entries ws, c')
      \<and> allocs c' = allocs ?c" by simp
  with r show ?case by auto
qed

lemma length_zip_pairs: "length (zip_pairs xs) = length xs div 2"
  by (induction xs rule: zip_pairs.induct) auto

lemma zip_pairs_nth:
  "i < length xs div 2 \<Longrightarrow> zip_pairs xs ! i = (xs ! (2 * i), xs ! (2 * i + 1))"
proof (induction xs arbitrary: i rule: zip_pairs.induct)
  case (1 x y xs)
  then show ?case by (cases i) auto
qed auto

lemma length_pack_words: "length (pack_words buf) = length buf div 2"
  by (simp add: pack_words_def length_zip_pairs)

lemma pack_words_nth:
  "i < length buf div 2 \<Longrightarrow>
     pack_words buf ! i = buf ! (2 * i) OR push_bit 32 (buf ! (2 * i + 1))"
  by (simp add: pack_words_def length_zip_pairs zip_pairs_nth)

lemma pack_words_unpaired:
  "even (length buf) \<Longrightarrow> pack_words (buf @ [x]) = pack_words buf"
proof (induction buf rule: zip_pairs.induct)
  case (1 x y xs)
  then show ?case by (simp add: pack_words_def)
qed (simp_all add: pack_words_def)

text \<open>
  C10. \<open>entries ws\<close> is the list of 32-bit entries that \<open>add_descriptors\<close> collects for a table
  \<open>ws\<close>: a literal is one entry, a reference two (both 0, to be filled by the relocation).
  When every name the table refers to is in the registry, \<open>add_descriptor\<close> raises nothing,
  whatever the number of entries. The Alloc then holds one 64-bit word for every complete
  pair of entries, word \<open>i\<close> made of the entries \<open>2i\<close> (low half) and \<open>2i + 1\<close> (high half), and
  its size is \<open>(entries div 2) * 8\<close>. So with an odd number of entries the last one is in no
  word and is not counted in the size.
\<close>

theorem add_descriptor_odd_entry_dropped:
  assumes "refs_bound (allocs c) ws"
  shows "\<exists>c' a.
           add_descriptor c (d, ws) = Inr c'
         \<and> map_of (allocs c') d = Some a
         \<and> alloc_id a = next_id c
         \<and> length (entries ws) = entry_count ws
         \<and> length (alloc_buffer a) = entry_count ws div 2
         \<and> (\<forall>i < entry_count ws div 2.
               alloc_buffer a ! i
               = entries ws ! (2 * i) OR push_bit 32 (entries ws ! (2 * i + 1)))
         \<and> alloc_size a = int (entry_count ws div 2) * 8"
proof -
  let ?c1 = "c\<lparr>next_id := next_id c + 1\<rparr>"
  from assms have "refs_bound (allocs ?c1) ws" by simp
  from desc_words_bound [OF this, of "next_id c" "[]"] obtain c2 where
    dw: "desc_words ?c1 (next_id c) ws [] = Inr (entries ws, c2)"
    by auto
  let ?a = "\<lparr>alloc_id = next_id c, alloc_size = int (length (pack_words (entries ws))) * 8,
         alloc_flags = 0x280f, alloc_buffer = pack_words (entries ws)\<rparr>"
  have run: "add_descriptor c (d, ws) = Inr (c2\<lparr>allocs := AList.update d ?a (allocs c2)\<rparr>)"
    using dw by (simp add: add_descriptor_def new_Alloc_def Let_def)
  have look: "map_of (allocs (c2\<lparr>allocs := AList.update d ?a (allocs c2)\<rparr>)) d = Some ?a"
    by (simp add: update_Some_unfold)
  show ?thesis
    using run look
    by (simp add: length_pack_words length_entries pack_words_nth)
qed

theorem add_descriptor_odd_entry_dropped_witness:
  "\<exists>c' a. add_descriptor (add_memory (new_Context 0) [(''bufa'', Size 4096)])
              (''d'', [Lit 1, Ref ''bufa'', Lit 7, Lit 9]) = Inr c'
     \<and> map_of (allocs c') ''d'' = Some a
     \<and> alloc_id a = 1
     \<and> alloc_buffer a = [1, 0x700000000]
     \<and> alloc_size a = 16"
proof -
  let ?c = "add_memory (new_Context 0) [(''bufa'', Size 4096)]"
  let ?ws = "[Lit 1, Ref ''bufa'', Lit 7, Lit 9]"
  have al: "allocs ?c = [(''bufa'', \<lparr>alloc_id = 0, alloc_size = 4096, alloc_flags = 0x280f,
      alloc_buffer = []\<rparr>)]" and nx: "next_id ?c = 1"
    by (simp_all add: new_Context_def new_Alloc_def)
  have b: "refs_bound (allocs ?c) ?ws" unfolding al by simp
  from add_descriptor_odd_entry_dropped [OF b, of "''d''"] obtain c' a where
    r: "add_descriptor ?c (''d'', ?ws) = Inr c'" "map_of (allocs c') ''d'' = Some a"
      "alloc_id a = next_id ?c" "length (alloc_buffer a) = entry_count ?ws div 2"
      "\<forall>i < entry_count ?ws div 2.
         alloc_buffer a ! i = entries ?ws ! (2 * i) OR push_bit 32 (entries ?ws ! (2 * i + 1))"
      "alloc_size a = int (entry_count ?ws div 2) * 8"
    by blast
  have n: "entry_count ?ws div 2 = 2" by simp
  have "alloc_buffer a ! 0 = 1" using r(5) n by simp
  moreover have "alloc_buffer a ! 1 = 0x700000000" using r(5) n by simp
  moreover have "\<exists>x y. alloc_buffer a = [x, y]"
    using r(4) n by (auto simp: numeral_2_eq_2 length_Suc_conv)
  ultimately have "alloc_buffer a = [1, 0x700000000]"
    by auto
  with r n nx show ?thesis by auto
qed

subsection \<open>Concrete inputs\<close>

text \<open>The programs below use no float operand and no shader, so the two outside encoders
  can be functions that always fail; the registry holds one memory region.\<close>

definition no_float :: float_conv where
  "no_float s = Inl ValueError"

definition no_asm :: "string \<Rightarrow> error + int" where
  "no_asm s = Inl ValueError"

definition example_tables :: tables where
  "example_tables = \<lparr>shaders = [], memory = [(''bufa'', Size 4096)], descriptors = []\<rparr>"

text \<open>A text from its lines\<close>

definition unlines :: "string list \<Rightarrow> string" where
  "unlines ls = join [CHR 0x0A] ls"

text \<open>What a run printed\<close>

definition printed_by :: "error + Context \<Rightarrow> error + string list" where
  "printed_by r = (case r of Inl e \<Rightarrow> Inl e | Inr c \<Rightarrow> Inr (printed c))"

subsection \<open>Closing a nested scope\<close>

text \<open>
  C3. The claim: every Level popped when its scope closes is finalized, that is its pending
  symbolic references are resolved against its labels, and a reference that cannot be
  resolved is fatal. \<open>flush_exe\<close> calls \<open>finish\<close> on the Level it pops, the outermost one;
  \<open>pop_until\<close>, which pops the nested Levels, does not. In the first program the body of the
  call branches forward over one word to \<open>foo\<close>: the Level of the body (id 2) is written out
  with the displacement 0 still in its branch word, where \<open>finish\<close> would have added 1. In
  the second the body branches to a label that is never defined and the run succeeds. The
  same lines as an outermost scope are resolved (displacement 1), and the undefined label is
  fatal there.
\<close>

theorem nested_scope_not_finished:
  "interpret_text no_float no_asm example_tables 0
     (unlines [''mov x48, #0'', ''mov w4a, #0'', ''call w4a, x48'',
               ''  b foo'', ''  nop'', ''  foo: nop'', ''nop''])
   = Inr (unlines
       [''buffer 0 4096 0x280f '',
        ''buffer 2 24 0x200f 0x1600000060000000 0x0 0x0'',
        ''buffer 1 32 0x200f 0x148000000000000 0x24a000000000018 0x2000484a00000000 0x0'',
        ''reloc 1+0 2+0''], 4)
   \<and> interpret_text no_float no_asm example_tables 0
     (unlines [''mov x48, #0'', ''mov w4a, #0'', ''call w4a, x48'', ''  b nosuch'', ''nop''])
   = Inr (unlines
       [''buffer 0 4096 0x280f '',
        ''buffer 2 8 0x200f 0x1600000060000000'',
        ''buffer 1 32 0x200f 0x148000000000000 0x24a000000000008 0x2000484a00000000 0x0'',
        ''reloc 1+0 2+0''], 4)
   \<and> interpret_text no_float no_asm example_tables 0
     (unlines [''b foo'', ''nop'', ''foo: nop''])
   = Inr (unlines
       [''buffer 0 4096 0x280f '',
        ''buffer 1 24 0x200f 0x1600000060000001 0x0 0x0''], 3)
   \<and> interpret_text no_float no_asm example_tables 0 (unlines [''b nosuch'', ''nop''])
   = Inl KeyError"
  by code_simp

text \<open>
  C6. The claim: among the two words emitted before a call there is one word tagged as the
  callee-id slot and one tagged as the argument-count slot, and the absence of either is
  fatal. The call scans the two words before it and asserts that \<open>call_addr_offset\<close> and
  \<open>call_len_offset\<close> are set; but the two fields are reset only when a nested scope closes,
  so after a call that no nested scope follows they still hold the offsets of that call. In
  the first program the second call comes after two \<open>nop\<close> words, neither of them tagged, and
  the run succeeds, with both calls in the buffer. Without the earlier call the same three
  lines fail the assertion, as the claim says.
\<close>

theorem stale_call_bookkeeping_accepted:
  "interpret_text no_float no_asm example_tables 0
     (unlines [''mov x48, #0'', ''mov w4a, #0'', ''call w4a, x48'',
               ''nop'', ''nop'', ''call w4a, x48''])
   = Inr (unlines
       [''buffer 0 4096 0x280f '',
        ''buffer 1 48 0x200f 0x148000000000000 0x24a000000000000 0x2000484a00000000 0x0 0x0 0x2000484a00000000''],
      3)
   \<and> interpret_text no_float no_asm example_tables 0
     (unlines [''wait 0'', ''nop'', ''nop'', ''call w4a, x48''])
   = Inl AssertionError"
  by code_simp

subsection \<open>Patching the call site\<close>

lemma objs_store_update:
  "objs (c\<lparr>store := AList.update i L (store c)\<rparr>) j = (if j = i then L else objs c j)"
  by (simp add: objs_def update_conv')

lemma py_get_nth: "0 \<le> i \<Longrightarrow> i < int (length xs) \<Longrightarrow> py_get xs i = Inr (xs ! nat i)"
  by (simp add: py_get_def py_index_def)

lemma py_set_nth:
  "0 \<le> i \<Longrightarrow> i < int (length xs) \<Longrightarrow> py_set xs i v = Inr (xs[nat i := v])"
  by (simp add: py_set_def py_index_def)









subsection \<open>The annotation of a line\<close>

lemma objs_append_words:
  "buffer (objs (append_words c i ws) i) = buffer (objs c i) @ ws"
  by (simp add: append_words_def objs_def update_conv')

lemma hex_char_facts:
  assumes "is_lower_hex ch"
  shows "\<not> is_space ch" "ch \<noteq> CHR ''-''" "ch \<noteq> CHR ''+''" "ch \<noteq> CHR ''_''"
    "ch \<noteq> CHR ''x''" "ch \<noteq> CHR ''X''" "digit_val ch < 16"
  using assms
  by (auto simp: is_lower_hex_def is_space_def digit_val_def Let_def)


lemma scan_digits_hex:
  "list_all is_lower_hex ds \<Longrightarrow>
     \<exists>v. scan_digits 16 False acc seen ds = Inr (v, seen \<or> ds \<noteq> [], []) \<and> (0 \<le> acc \<longrightarrow> 0 \<le> v)"
proof (induction ds arbitrary: acc seen)
  case Nil
  then show ?case by simp
next
  case (Cons d ds)
  then have d: "is_lower_hex d" and ds: "list_all is_lower_hex ds" by simp_all
  from Cons.IH [OF ds, of "acc * 16 + int (digit_val d)" True]
  show ?case using hex_char_facts [OF d] by auto
qed

lemma py_int_hex16:
  assumes "list_all is_lower_hex ds" "ds \<noteq> []"
  shows "\<exists>g. py_int 16 ds = Inr g \<and> 0 \<le> g"
proof -
  obtain d ds' where c: "ds = d # ds'" using assms(2) by (cases ds) auto
  have d: "is_lower_hex d" and r: "list_all is_lower_hex ds'" using assms(1) c by simp_all
  have l: "lstrip ds = ds" using hex_char_facts(1) [OF d] c by (simp add: lstrip_def)
  have p: "take 1 (drop 1 ds) \<noteq> ''x''" "take 1 (drop 1 ds) \<noteq> ''X''"
    using r c hex_char_facts(5,6) by (cases ds'; auto)+
  from scan_digits_hex [OF assms(1), of 0 False] obtain v where
    v: "scan_digits 16 False 0 False ds = Inr (v, True, [])" "0 \<le> v"
    using assms(2) by auto
  show ?thesis
    unfolding py_int_def l Let_def
    using hex_char_facts [OF d] c p v by (auto simp: lstrip_def)
qed

lemma given_code_of_annotated:
  assumes "has_given_code line"
  shows "\<exists>g. given_code_of line = Inr (Some g, lstrip (drop 16 line)) \<and> 0 \<le> g"
proof -
  have "list_all is_lower_hex (take 16 line)" "take 16 line \<noteq> []"
    using assms by (auto simp: has_given_code_def)
  from py_int_hex16 [OF this] show ?thesis
    using assms by (auto simp: given_code_of_def)
qed


definition line_indent :: "string \<Rightarrow> nat" where
  "line_indent ln = length (clean_line ln) - length (lstrip (clean_line ln))"

definition line_body :: "string \<Rightarrow> string" where
  "line_body ln = lstrip (clean_line ln)"

definition line_operands :: "string \<Rightarrow> string list" where
  "line_operands ln = map (strip_chars '','') (split_ws (lstrip (drop 16 (line_body ln))))"

text \<open>
  C9, the claim as stated: whenever a line carries an annotation of 16 hexadecimal digits,
  the computed word is compared with it and a difference is reported. \<open>movp\<close> appends its
  two words and continues with the next line before the comparison: the line below is
  annotated with \<open>ffffffffffffffff\<close>, neither of its two words is that, and nothing is
  printed.
\<close>

theorem movp_annotation_not_compared:
  "interpret_text no_float no_asm example_tables 0
     (unlines [''wait 0'', ''ffffffffffffffff movp x22, 0x1''])
   = Inr (unlines
       [''buffer 0 4096 0x280f '',
        ''buffer 1 24 0x200f 0x300000000010000 0x222000000000001 0x223000000000000''], 3)
   \<and> printed_by (assemble no_float no_asm example_tables 0
       (unlines [''wait 0'', ''ffffffffffffffff movp x22, 0x1'']))
   = Inr []"
  by code_simp

text \<open>
  C9 as amended. Take a line with an annotation (16 hexadecimal digits and a space before
  the instruction) that has passed the handling of indentation, labels and \<open>$\<close> operands.
  The annotation always reads as a number \<open>g\<close>. If the instruction is one that computes a
  single word \<open>w\<close>, the line succeeds, the word appended to the buffer is the computed word
  \<open>code_of w\<close>, and, for \<open>g\<close> other than 0, exactly the line \<open>Mismatch! ...\<close> is printed when the
  two differ and nothing when they agree. If the instruction is a directive or one of
  several words (\<open>movp\<close>, \<open>regdump\<close>), the line ends with what the instruction did, and no
  comparison is made.
\<close>

theorem annotation_compared_not_fatal:
  assumes ne: "clean_line ln \<noteq> []"
    and ann: "has_given_code (line_body ln)"
    and ent: "enter_line c oi (line_indent ln) = Inr c1"
    and l1: "ctx_l c1 = Some lid"
    and lab: "label_step (oi \<noteq> None) c1 lid (line_operands ln) = Inr (c2, s1)"
    and s1: "s1 \<noteq> []"
    and sub: "subst_refs c2 lid [] s1 = Inr (c3, s2)"
  shows "\<exists>g. given_code_of (line_body ln) = Inr (Some g, lstrip (drop 16 (line_body ln)))
         \<and> (\<forall>c4 w lid'. dispatch fl c3 lid ln s2 = Inr (Emit c4 w) \<and> ctx_l c4 = Some lid' \<longrightarrow>
               (\<exists>c'. interpret_line fl (c, oi) ln = Inr (c', Some (line_indent ln))
                  \<and> buffer (objs c' lid') = buffer (objs c4 lid') @ [code_of w]
                  \<and> (g \<noteq> 0 \<longrightarrow>
                       printed c' = printed c4 @
                         (if code_of w = g then []
                          else [''Mismatch! '' @ py_hex (code_of w) @ '' != '' @ py_hex g @
                                '', '' @ ln]))))
         \<and> (\<forall>c4. dispatch fl c3 lid ln s2 = Inr (Continue c4) \<longrightarrow>
               interpret_line fl (c, oi) ln = Inr (c4, Some (line_indent ln)))"
proof -
  from given_code_of_annotated [OF ann] obtain g where
    g: "given_code_of (line_body ln) = Inr (Some g, lstrip (drop 16 (line_body ln)))"
    by blast
  have emit_case: "\<And>c4 w lid'. dispatch fl c3 lid ln s2 = Inr (Emit c4 w) \<Longrightarrow>
      ctx_l c4 = Some lid' \<Longrightarrow>
      interpret_line fl (c, oi) ln = Inr (emit c4 lid' (Some g) ln w, Some (line_indent ln))"
    using ne ent l1 lab s1 sub g
    by (simp add: interpret_line_def Let_def line_indent_def line_body_def line_operands_def)
  have cont_case: "\<And>c4. dispatch fl c3 lid ln s2 = Inr (Continue c4) \<Longrightarrow>
      interpret_line fl (c, oi) ln = Inr (c4, Some (line_indent ln))"
    using ne ent l1 lab s1 sub g
    by (simp add: interpret_line_def Let_def line_indent_def line_body_def line_operands_def)
  have em: "\<And>c4 w lid'. buffer (objs (emit c4 lid' (Some g) ln w) lid')
      = buffer (objs c4 lid') @ [code_of w]"
    by (simp add: emit_def Let_def objs_def append_words_def update_conv')
  have pr: "\<And>c4 w lid'. g \<noteq> 0 \<Longrightarrow> printed (emit c4 lid' (Some g) ln w)
      = printed c4 @ (if code_of w = g then []
          else [''Mismatch! '' @ py_hex (code_of w) @ '' != '' @ py_hex g @ '', '' @ ln])"
    by (simp add: emit_def Let_def append_words_def mismatch_def)
  show ?thesis
    using g emit_case cont_case em pr by auto
qed


text \<open>The Context after a first line has opened the outermost Level.\<close>

definition one_level :: Context where
  "one_level = (new_Context 1)\<lparr>store := [(0, new_Level 0)], levels := [0], ctx_l := Some 0\<rparr>"

theorem annotation_compared_not_fatal_witness:
  "\<exists>c'. interpret_line no_float (one_level, Some 0) ''0000000000000001 nop'' = Inr (c', Some 0)
     \<and> buffer (objs c' 0) = [0]
     \<and> printed c' = [''Mismatch! 0x0 != 0x1, 0000000000000001 nop'']"
proof -
  let ?ln = "''0000000000000001 nop''"
  have h1: "clean_line ?ln \<noteq> []" by code_simp
  have h2: "has_given_code (line_body ?ln)" by code_simp
  have v: "code_of (0, 0, 0) = 0" "py_hex 0 = ''0x0''" "py_hex 1 = ''0x1''"
      "line_indent ?ln = 0" "line_operands ?ln = [''nop'']"
      "endswith ''nop'' '':'' = False" "is_num ''nop'' = False"
      "startswith ''nop'' ''$'' = False" "enc_nop no_float [''nop''] = Inr (0, 0, 0)"
    by code_simp+
  have w: "buffer (objs one_level 0) = []" "printed one_level = []"
    by (simp_all add: one_level_def objs_def new_Context_def new_Level_def)
  have h3: "enter_line one_level (Some 0) (line_indent ?ln) = Inr one_level"
    unfolding v by (simp add: enter_line_def one_level_def set_l_def new_Context_def)
  have h4: "ctx_l one_level = Some 0" by (simp add: one_level_def)
  have h5: "label_step (Some (0::nat) \<noteq> None) one_level 0 (line_operands ?ln)
      = Inr (one_level, [''nop''])"
    unfolding v by (simp add: label_step_def py_get_def py_index_def v)
  have h6: "[''nop''] \<noteq> []" by simp
  have h7: "subst_refs one_level 0 [] [''nop''] = Inr (one_level, [''nop''])"
    by (simp add: v)
  have d: "dispatch no_float one_level 0 ?ln [''nop''] = Inr (Emit one_level (0, 0, 0))"
    by (simp add: dispatch_def py_get_def py_index_def pure_word_def v)
  have gv: "given_code_of (line_body ?ln) = Inr (Some 1, ''nop'')" by code_simp
  from annotation_compared_not_fatal [OF h1 h2 h3 h4 h5 h6 h7, of no_float]
  obtain g where g: "given_code_of (line_body ?ln)
        = Inr (Some g, lstrip (drop 16 (line_body ?ln)))"
    and e: "\<forall>c4 w lid'. dispatch no_float one_level 0 ?ln [''nop''] = Inr (Emit c4 w)
          \<and> ctx_l c4 = Some lid' \<longrightarrow>
          (\<exists>c'. interpret_line no_float (one_level, Some 0) ?ln = Inr (c', Some (line_indent ?ln))
             \<and> buffer (objs c' lid') = buffer (objs c4 lid') @ [code_of w]
             \<and> (g \<noteq> 0 \<longrightarrow>
                  printed c' = printed c4 @
                    (if code_of w = g then []
                     else [''Mismatch! '' @ py_hex (code_of w) @ '' != '' @ py_hex g @
                           '', '' @ ?ln])))"
    by blast
  have g1: "g = 1" using g gv by simp
  from e d h4 obtain c' where
    "interpret_line no_float (one_level, Some 0) ?ln = Inr (c', Some (line_indent ?ln))"
    "buffer (objs c' 0) = buffer (objs one_level 0) @ [code_of (0, 0, 0)]"
    "g \<noteq> 0 \<longrightarrow> printed c' = printed one_level @
        (if code_of (0, 0, 0) = g then []
         else [''Mismatch! '' @ py_hex (code_of (0, 0, 0)) @ '' != '' @ py_hex g @ '', '' @ ?ln])"
    by blast
  then show ?thesis
    unfolding g1 v w by (intro exI [of _ c']) simp
qed

subsection \<open>Errors and unknown mnemonics\<close>









subsection \<open>Numeric labels\<close>

lemma digit_char_facts:
  assumes "is_digit ch"
  shows "\<not> is_space ch" "ch \<noteq> CHR ''-''" "ch \<noteq> CHR ''+''" "ch \<noteq> CHR ''_''"
    "ch \<noteq> CHR '':''" "ch \<noteq> CHR ''b''" "ch \<noteq> CHR ''f''" "digit_val ch < 10"
  using assms
  by (auto simp: is_digit_def is_space_def digit_val_def Let_def)

lemma scan_digits_dec:
  "list_all is_digit ds \<Longrightarrow> 0 \<le> acc \<Longrightarrow>
     \<exists>v. scan_digits 10 False acc seen ds = Inr (v, seen \<or> ds \<noteq> [], []) \<and> 0 \<le> v"
proof (induction ds arbitrary: acc seen)
  case Nil
  then show ?case by simp
next
  case (Cons d ds)
  then have d: "is_digit d" and ds: "list_all is_digit ds" by simp_all
  have "0 \<le> acc * 10 + int (digit_val d)" using Cons.prems by simp
  from Cons.IH [OF ds this, of True]
  show ?case using digit_char_facts [OF d] by auto
qed

lemma py_int_dec:
  assumes "is_num ds"
  shows "\<exists>n. py_int 10 ds = Inr n \<and> 0 \<le> n"
proof -
  from assms have all: "list_all is_digit ds" and ne: "ds \<noteq> []"
    by (simp_all add: is_num_def)
  obtain d ds' where c: "ds = d # ds'" using ne by (cases ds) auto
  have d: "is_digit d" using all c by simp
  from scan_digits_dec [OF all, of 0 False] obtain v where
    v: "scan_digits 10 False 0 False ds = Inr (v, True, [])" "0 \<le> v"
    using ne by auto
  show ?thesis
    unfolding py_int_def Let_def
    using digit_char_facts [OF d] c v by (auto simp: lstrip_def)
qed

lemma is_num_suffix:
  assumes "is_num ds"
  shows "butlast (ds @ [x]) = ds" "endswith (ds @ [x]) [y] = (x = y)"
    "endswith ds '':'' = False" "\<not> is_num (ds @ '':'')"
proof -
  from assms have all: "list_all is_digit ds" and ne: "ds \<noteq> []"
    by (simp_all add: is_num_def)
  show "butlast (ds @ [x]) = ds" by simp
  show "endswith (ds @ [x]) [y] = (x = y)" by (simp add: endswith_def)
  have "is_digit (last ds)" using all ne by (induction ds) auto
  then have "last ds \<noteq> CHR '':''" using digit_char_facts(5) by blast
  moreover have "butlast ds @ [last ds] = ds" using ne by simp
  then have "drop (length ds - 1) ds = [last ds]"
    by (metis append_eq_conv_conj length_butlast)
  ultimately show "endswith ds '':'' = False" by (simp add: endswith_def)
  show "\<not> is_num (ds @ '':'')" using digit_char_facts(5) by (auto simp: is_num_def is_digit_def)
qed


text \<open>The pending forward references of a number, and what resolving a list of pending
  references against the offset \<open>t\<close> does to a buffer: each branch word gets its
  displacement, as 16 bits, added.\<close>

definition pending :: "Level \<Rightarrow> int \<Rightarrow> label_ref list" where
  "pending L n = (case num_refs L n of None \<Rightarrow> [] | Some refs \<Rightarrow> refs)"

fun apply_pending :: "int \<Rightarrow> label_ref list \<Rightarrow> int list \<Rightarrow> int list" where
  "apply_pending t [] b = b"
| "apply_pending t ((k, ofs, ty) # rs) b =
     apply_pending t rs
       (b[nat (ofs div 8) := b ! nat (ofs div 8) + resolve_rel t ofs mod 65536])"

text \<open>A pending reference can be resolved against \<open>t\<close> in a buffer of \<open>len\<close> words when its
  branch word is in the buffer and the distance is a signed 16-bit value.\<close>

fun resolvable :: "int \<Rightarrow> nat \<Rightarrow> label_ref list \<Rightarrow> bool" where
  "resolvable t len [] = True"
| "resolvable t len ((k, ofs, ty) # rs) =
     (ty = ''rel'' \<and> 0 \<le> ofs \<and> ofs div 8 < int len
      \<and> - 32768 \<le> resolve_rel t ofs \<and> resolve_rel t ofs < 32768
      \<and> resolvable t len rs)"

lemma py_set_length: "py_set xs i v = Inr ys \<Longrightarrow> length ys = length xs"
  by (auto simp: py_set_def split: sum.splits)

lemma buffer_add_value_shape:
  "buffer_add_value L ofs v = Inr L1 \<Longrightarrow>
     \<exists>b. L1 = L\<lparr>buffer := b\<rparr> \<and> length b = length (buffer L)"
  by (auto simp: buffer_add_value_def ebind_eq_Inr dest: py_set_length)

lemma process_relocs_shape:
  "process_relocs L refs to = Inr L' \<Longrightarrow>
     \<exists>b. L' = L\<lparr>buffer := b\<rparr> \<and> length b = length (buffer L)"
proof (induction L refs to arbitrary: L' rule: process_relocs.induct)
  case (1 L to)
  then show ?case by (intro exI [of _ "buffer L"]) simp
next
  case (2 L ref ofs ty refs to)
  from "2.prems" obtain goto v L1 where
    s: "py_assert (ty = ''rel'') = Inr ()"
      "(case to of None \<Rightarrow> labels_lookup L ref | Some t \<Rightarrow> Inr t) = Inr goto"
      "to_int16 (resolve_rel goto ofs) = Inr v"
      "buffer_add_value L ofs v = Inr L1" "process_relocs L1 refs to = Inr L'"
    by (auto simp: ebind_eq_Inr)
  from buffer_add_value_shape [OF s(4)] obtain b1 where
    b1: "L1 = L\<lparr>buffer := b1\<rparr>" "length b1 = length (buffer L)" by blast
  from "2.IH" [OF s] obtain b where "L' = L1\<lparr>buffer := b\<rparr>" "length b = length (buffer L1)"
    by blast
  with b1 show ?case by (intro exI [of _ b]) simp
qed

lemma process_relocs_resolvable:
  "resolvable t (length (buffer L)) refs \<Longrightarrow>
     process_relocs L refs (Some t) = Inr (L\<lparr>buffer := apply_pending t refs (buffer L)\<rparr>)"
proof (induction refs arbitrary: L)
  case Nil
  then show ?case by simp
next
  case (Cons r refs)
  obtain k ofs ty where r: "r = (k, ofs, ty)" by (cases r) auto
  let ?i = "ofs div 8"
  let ?b = "(buffer L)[nat ?i := buffer L ! nat ?i + resolve_rel t ofs mod 65536]"
  from Cons.prems r have p: "ty = ''rel''" "0 \<le> ofs" "?i < int (length (buffer L))"
    "- 32768 \<le> resolve_rel t ofs" "resolve_rel t ofs < 32768"
    "resolvable t (length (buffer L)) refs" by simp_all
  have i0: "0 \<le> ?i" using p(2) by simp
  have t16: "to_int16 (resolve_rel t ofs) = Inr (resolve_rel t ofs mod 65536)"
    using p(4,5) by (rule to_int16_in_range)
  have add: "buffer_add_value L ofs (resolve_rel t ofs mod 65536) = Inr (L\<lparr>buffer := ?b\<rparr>)"
    using i0 p(3) by (simp add: buffer_add_value_def py_get_nth py_set_nth)
  have "resolvable t (length (buffer (L\<lparr>buffer := ?b\<rparr>))) refs" using p(6) by simp
  from Cons.IH [OF this] show ?case
    using r p(1) t16 add by (simp add: py_assert_def)
qed

text \<open>
  C7. For a label that is a number \<open>N\<close> (the digits \<open>ds\<close>, read as \<open>n\<close>), in any Level:
  a backward reference \<open>Nb\<close> is fatal when \<open>n\<close> has no binding, and otherwise is resolved at
  once against the binding, the Level unchanged; a forward reference \<open>Nf\<close> is appended to
  the pending list of \<open>n\<close> and encodes 0 for now; a definition (\<open>N:\<close>, or \<open>N\<close> alone on a line)
  resolves every pending reference of \<open>n\<close> against the offset of the definition, removes
  the pending list of \<open>n\<close> and binds \<open>n\<close> to that offset, whether or not \<open>n\<close> was bound before;
  so the number can be defined again and again, and a backward reference right after a
  definition goes to that definition (displacement -1), not to an earlier one.
\<close>

theorem numeric_labels_rebindable:
  assumes "is_num ds"
  shows "\<exists>n. py_int 10 ds = Inr n
     \<and> (num_labels L n = None \<longrightarrow> branch_label L (ds @ ''b'') = Inl AssertionError)
     \<and> (\<forall>t. num_labels L n = Some t \<longrightarrow>
            branch_label L (ds @ ''b'') = Inr (L, resolve_rel t (offset L)))
     \<and> branch_label L (ds @ ''f'')
         = Inr (L\<lparr>num_refs := (num_refs L)(n \<mapsto> pending L n @ [(Num n, offset L, ''rel'')])\<rparr>,
                0)
     \<and> define_label L ds = define_label L (ds @ '':'')
     \<and> (resolvable (offset L) (length (buffer L)) (pending L n) \<longrightarrow>
            define_label L (ds @ '':'')
            = Inr (L\<lparr>buffer := apply_pending (offset L) (pending L n) (buffer L),
                     num_refs := (num_refs L)(n := None),
                     num_labels := (num_labels L)(n \<mapsto> offset L)\<rparr>, []))
     \<and> (\<forall>L' msgs. define_label L (ds @ '':'') = Inr (L', msgs) \<longrightarrow>
            num_refs L' n = None \<and> num_labels L' n = Some (offset L)
            \<and> offset L' = offset L
            \<and> branch_label L' (ds @ ''b'') = Inr (L', - 1))"
proof -
  from py_int_dec [OF assms] obtain n where n: "py_int 10 ds = Inr n" by blast
  note sfx = is_num_suffix [OF assms]
  have b: "is_num (butlast (ds @ ''b''))" "is_num (butlast (ds @ ''f''))"
      "butlast (ds @ ''b'') = ds" "butlast (ds @ ''f'') = ds" "butlast (ds @ '':'') = ds"
      "endswith (ds @ ''b'') ''b''" "endswith (ds @ ''f'') ''f''" "\<not> endswith (ds @ ''f'') ''b''"
      "endswith (ds @ '':'') '':''"
    using assms by (simp_all add: sfx)
  have back_none: "num_labels L n = None \<Longrightarrow> branch_label L (ds @ ''b'') = Inl AssertionError"
    for L by (simp add: branch_label_def b n assms)
  have back_some: "num_labels L n = Some t \<Longrightarrow>
      branch_label L (ds @ ''b'') = Inr (L, resolve_rel t (offset L))" for L t
    by (simp add: branch_label_def b n assms)
  have fwd: "branch_label L (ds @ ''f'')
      = Inr (L\<lparr>num_refs := (num_refs L)(n \<mapsto> pending L n @ [(Num n, offset L, ''rel'')])\<rparr>, 0)"
    by (simp add: branch_label_def b n assms pending_def Let_def)
  have same: "define_label L ds = define_label L (ds @ '':'')"
    using assms by (simp add: define_label_def Let_def b sfx)
  have def_ok: "resolvable (offset L) (length (buffer L)) (pending L n) \<Longrightarrow>
      define_label L (ds @ '':'')
      = Inr (L\<lparr>buffer := apply_pending (offset L) (pending L n) (buffer L),
               num_refs := (num_refs L)(n := None),
               num_labels := (num_labels L)(n \<mapsto> offset L)\<rparr>, [])"
  proof -
    assume r: "resolvable (offset L) (length (buffer L)) (pending L n)"
    have len: "length (apply_pending t refs bf) = length bf" for t refs bf
      by (induction t refs bf rule: apply_pending.induct) auto
    show ?thesis
    proof (cases "num_refs L n")
      case None
      then have "(num_refs L)(n := None) = num_refs L" by auto
      with None show ?thesis
        by (simp add: define_label_def Let_def b assms n pending_def offset_def)
    next
      case (Some refs)
      then have "pending L n = refs" by (simp add: pending_def)
      with r process_relocs_resolvable [of "offset L" L refs] have
        "process_relocs L refs (Some (offset L))
           = Inr (L\<lparr>buffer := apply_pending (offset L) refs (buffer L)\<rparr>)" by simp
      then show ?thesis
        using Some \<open>pending L n = refs\<close>
        by (simp add: define_label_def Let_def b assms n offset_def len)
    qed
  qed
  have def_any: "define_label L (ds @ '':'') = Inr (L', msgs) \<Longrightarrow>
      num_refs L' n = None \<and> num_labels L' n = Some (offset L) \<and> offset L' = offset L"
    for L' msgs
    by (auto simp: define_label_def Let_def b assms n offset_def ebind_eq_Inr
        split: option.splits dest!: process_relocs_shape)
  have def_back: "define_label L (ds @ '':'') = Inr (L', msgs) \<Longrightarrow>
      branch_label L' (ds @ ''b'') = Inr (L', - 1)" for L' msgs
    using def_any [of L' msgs] back_some [of L' "offset L"]
    by (simp add: resolve_rel_def)
  show ?thesis
    using n back_none back_some fwd same def_ok def_any def_back by blast
qed


theorem numeric_labels_rebindable_witness:
  "branch_label (new_Level 0) ''1b'' = Inl AssertionError
   \<and> branch_label ((new_Level 0)\<lparr>buffer := [0, 0], num_labels := [1 \<mapsto> 8]\<rparr>) ''1b''
     = Inr ((new_Level 0)\<lparr>buffer := [0, 0], num_labels := [1 \<mapsto> 8]\<rparr>, - 2)
   \<and> define_label
       ((new_Level 0)\<lparr>buffer := [0, 0x1600000060000000, 0], num_labels := [1 \<mapsto> 0],
          num_refs := [1 \<mapsto> [(Num 1, 8, ''rel'')]]\<rparr>) ''1:''
     = Inr ((new_Level 0)\<lparr>buffer := [0, 0x1600000060000001, 0], num_labels := [1 \<mapsto> 24],
          num_refs := Map.empty\<rparr>, [])
   \<and> interpret_text no_float no_asm example_tables 0
       (unlines [''mov w01, 1'', ''1: nop'', ''b 1b'', ''b 1f'', ''nop'', ''1: nop'', ''b 1b''])
     = Inr (unlines
         [''buffer 0 4096 0x280f '',
          ''buffer 1 56 0x200f 0x201000000000001 0x0 0x160000006000fffe 0x1600000060000001 0x0 0x0 0x160000006000fffe''],
        3)"
proof -
  have d: "is_num ''1''" by code_simp
  have n1: "py_int 10 ''1'' = Inr 1" by code_simp
  let ?A = "new_Level 0"
  let ?B = "(new_Level 0)\<lparr>buffer := [0, 0], num_labels := [1 \<mapsto> 8]\<rparr>"
  let ?C = "(new_Level 0)\<lparr>buffer := [0, 0x1600000060000000, 0], num_labels := [1 \<mapsto> 0],
          num_refs := [1 \<mapsto> [(Num 1, 8, ''rel'')]]\<rparr>"
  have a: "branch_label ?A ''1b'' = Inl AssertionError"
    using numeric_labels_rebindable [OF d, of ?A] n1 by (auto simp: new_Level_def)
  have b: "branch_label ?B ''1b'' = Inr (?B, - 2)"
    using numeric_labels_rebindable [OF d, of ?B] n1
    by (auto simp: new_Level_def offset_def resolve_rel_def)
  have r: "resolvable (offset ?C) (length (buffer ?C)) (pending ?C 1)"
    by (simp add: pending_def new_Level_def offset_def resolve_rel_def)
  have c: "define_label ?C ''1:''
     = Inr ((new_Level 0)\<lparr>buffer := [0, 0x1600000060000001, 0], num_labels := [1 \<mapsto> 24],
          num_refs := Map.empty\<rparr>, [])"
    using numeric_labels_rebindable [OF d, of ?C] n1 r
    by (auto simp: new_Level_def offset_def resolve_rel_def pending_def)
  have e: "interpret_text no_float no_asm example_tables 0
       (unlines [''mov w01, 1'', ''1: nop'', ''b 1b'', ''b 1f'', ''nop'', ''1: nop'', ''b 1b''])
     = Inr (unlines
         [''buffer 0 4096 0x280f '',
          ''buffer 1 56 0x200f 0x201000000000001 0x0 0x160000006000fffe 0x1600000060000001 0x0 0x0 0x160000006000fffe''],
        3)"
    by code_simp
  show ?thesis using a b c e by blast
qed

end
